theory Spec2Isabelle
  imports Main "HOL-Library.Word"
begin

unbundle bit_operations_syntax

section \<open>Machine types and faults\<close>

type_synonym u8 = "8 word"
type_synonym u16 = "16 word"
type_synonym u32 = "32 word"

text \<open>
  What C leaves undefined, and a loop that does not return, are results of their own:
  a division or remainder by zero, an access to \<open>sector_buffer\<close> or to a path
  outside its bounds, and a loop that has not returned within the steps it was given, or that never exits.
\<close>

datatype fault = DivisionByZero | BufferOverrun | NoReturn

definition thn :: "fault + 'a \<Rightarrow> ('a \<Rightarrow> fault + 'b) \<Rightarrow> fault + 'b" where
  "thn m f = (case m of Inl e \<Rightarrow> Inl e | Inr x \<Rightarrow> f x)"

section \<open>The block device\<close>

text \<open>
  Modelled from the spec: \<open>diskio_read_block\<close> and \<open>diskio_write_block\<close> are declared in
  diskio.h, which is not among the sources. The spec's block device contract is
  \<open>read_block(dev, sector, out[512]) \<rightarrow> OK | IO_ERROR\<close> and the same for
  \<open>write_block\<close>. A device holds one block per sector address; each request has a
  status, \<open>DISKIO_SUCCESS\<close> or an error code. A read that fails leaves the caller's
  buffer as it was, a write that fails leaves the block as it was. The device keeps a
  log of the write requests it received, in order.
\<close>

record device =
  blocks :: "u32 \<Rightarrow> u8 list"
  read_status :: "u32 \<Rightarrow> u8"
  write_status :: "u32 \<Rightarrow> u8"
  write_log :: "(u32 \<times> u8 list) list"

definition DISKIO_SUCCESS :: u8 where
  "DISKIO_SUCCESS = 0"

definition diskio_read_block :: "device \<Rightarrow> u32 \<Rightarrow> u8 list \<Rightarrow> u8 \<times> u8 list" where
  "diskio_read_block d addr buf =
     (if read_status d addr = DISKIO_SUCCESS then (DISKIO_SUCCESS, blocks d addr)
      else (read_status d addr, buf))"

definition diskio_write_block :: "device \<Rightarrow> u32 \<Rightarrow> u8 list \<Rightarrow> u8 \<times> device" where
  "diskio_write_block d addr buf =
     (let d' = d\<lparr>write_log := write_log d @ [(addr, buf)]\<rparr>
      in if write_status d addr = DISKIO_SUCCESS
         then (DISKIO_SUCCESS, d'\<lparr>blocks := (blocks d)(addr := buf)\<rparr>)
         else (write_status d addr, d'))"

section \<open>The driver's data\<close>

text \<open>
  Modelled from the spec: fat.h is not among the sources. The field list of the BPB is
  the spec's (section 3); the widths are those \<open>parse_bootsector\<close> reads from the boot
  sector. The type of the volume is one of FAT12, FAT16 and FAT32.
\<close>

datatype fat_type = FAT12 | FAT16 | FAT32

record FAT_Info =
  fs_type :: fat_type
  BPB_BytesPerSec :: u16
  BPB_SecPerClus :: u8
  BPB_RsvdSecCnt :: u16
  BPB_NumFATs :: u8
  BPB_RootEntCnt :: u16
  BPB_TotSec :: u32
  BPB_Media :: u8
  BPB_FATSz :: u32
  BPB_RootClus :: u32

text \<open>
  \<open>struct file_system mounted\<close>. A device is named by its address; 0 is the null
  pointer.
\<close>

record file_system =
  fs_dev :: nat
  fs_info :: FAT_Info
  first_data_sector :: u32

text \<open>The 32-byte directory entry (spec, section 3).\<close>

record dir_entry =
  DIR_Name :: "u8 list"
  DIR_Attr :: u8
  DIR_NTRes :: u8
  CrtTimeTenth :: u8
  DIR_CrtTime :: u16
  DIR_CrtDate :: u16
  DIR_LstAccessDate :: u16
  DIR_FstClusHI :: u16
  DIR_WrtTime :: u16
  DIR_WrtDate :: u16
  DIR_FstClusLO :: u16
  DIR_FileSize :: u32

text \<open>
  Modelled from the spec: \<open>struct file\<close> and \<open>struct file_desc\<close> are declared in fat.h
  (spec, section 3, file handle). The byte cursor has the type \<open>cfs_offset_t\<close>, a
  signed integer (\<open>cfs_seek\<close> tests it against 0); it is held as a 32-bit word and
  read in two's complement by \<open>sint\<close>. \<open>fd_file\<close> is the pointer to the slot of
  \<open>fat_file_pool\<close>, \<open>None\<close> for NULL.
\<close>

record fat_file =
  file_cluster :: u32
  dir_entry_sector :: u32
  dir_entry_offset :: u16
  file_dir_entry :: dir_entry
  nth_cluster :: u32
  file_n :: u32

record file_desc =
  fd_offset :: u32
  fd_file :: "nat option"
  fd_flags :: u8

text \<open>
  The globals of fat.c, and the devices of the system (what a device pointer points to).
\<close>

record fat_state =
  sector_buffer :: "u8 list"
  sector_buffer_addr :: u32
  sector_buffer_dirty :: u8
  cfs_readdir_offset :: u16
  mounted :: file_system
  fat_file_pool :: "fat_file list"
  fat_fd_pool :: "file_desc list"
  devices :: "nat \<Rightarrow> device"

definition mounted_device :: "fat_state \<Rightarrow> device" where
  "mounted_device s = devices s (fs_dev (mounted s))"

section \<open>Sector buffer functions\<close>

text \<open>
  \<open>fat_flush\<close>: the result of \<open>diskio_write_block\<close> is only printed in a debug
  build; the dirty flag is cleared whatever it was.
\<close>

definition fat_flush :: "fat_state \<Rightarrow> fat_state" where
  "fat_flush s =
     (if sector_buffer_dirty s \<noteq> 0 then
        (let (r, d') = diskio_write_block (mounted_device s) (sector_buffer_addr s) (sector_buffer s)
         in s\<lparr>devices := (devices s)(fs_dev (mounted s) := d'), sector_buffer_dirty := 0\<rparr>)
      else s)"

definition fat_read_block :: "u32 \<Rightarrow> fat_state \<Rightarrow> u8 \<times> fat_state" where
  "fat_read_block sector_addr s =
     (if sector_buffer_addr s = sector_addr \<and> sector_addr \<noteq> 0 then (0, s)
      else
        (let s1 = fat_flush s;
             s2 = s1\<lparr>sector_buffer_addr := sector_addr\<rparr>;
             (r, buf) = diskio_read_block (mounted_device s2) sector_addr (sector_buffer s2)
         in (r, s2\<lparr>sector_buffer := buf\<rparr>)))"

section \<open>FAT entry functions\<close>

text \<open>
  Modelled from the spec: the macro \<open>EOC\<close> is defined in fat.h; the spec's end-of-chain
  marker is a value whose low 28 bits are at least 0x0FFFFFF8 (at least 0xFFF8 in the 16
  bits of a FAT16 entry).
\<close>

definition EOC :: u32 where
  "EOC = 0x0FFFFFFF"

definition is_EOC :: "fat_state \<Rightarrow> u32 \<Rightarrow> bool" where
  "is_EOC s fat_entry =
     (if fs_type (fs_info (mounted s)) = FAT16 then fat_entry \<ge> 0xFFF8
      else if fs_type (fs_info (mounted s)) = FAT32 then (fat_entry AND 0x0FFFFFFF) \<ge> 0x0FFFFFF8
      else False)"

text \<open>
  \<open>calc_fat_block\<close> leaves \<open>*ent_offset\<close> as the caller set it when the volume is
  neither FAT16 nor FAT32; \<open>ent_offset0\<close> is that value (0 at every call).
\<close>

definition calc_fat_block :: "fat_state \<Rightarrow> u32 \<Rightarrow> u32 \<Rightarrow> fault + (u32 \<times> u32)" where
  "calc_fat_block s cur_cluster ent_offset0 =
     (let N = cur_cluster;
          bpb = fs_info (mounted s);
          ent_offset = (if fs_type bpb = FAT16 then N * 2
                        else if fs_type bpb = FAT32 then N * 4
                        else ent_offset0);
          bps = (ucast (BPB_BytesPerSec bpb) :: u32)
      in if bps = 0 then Inl DivisionByZero
         else Inr (ucast (BPB_RsvdSecCnt bpb) + ent_offset div bps, ent_offset mod bps))"

definition read_fat_entry :: "u32 \<Rightarrow> fat_state \<Rightarrow> fault + (u32 \<times> fat_state)" where
  "read_fat_entry cluster_num s =
     thn (calc_fat_block s cluster_num 0) (\<lambda>(fat_sec_num, ent_offset).
       let (r, s1) = fat_read_block fat_sec_num s;
           buf = sector_buffer s1;
           i = unat ent_offset
       in if fs_type (fs_info (mounted s1)) = FAT16 then
            (if i + 1 < 512
             then Inr (push_bit 8 (ucast (buf ! (i + 1))) + ucast (buf ! i), s1)
             else Inl BufferOverrun)
          else if fs_type (fs_info (mounted s1)) = FAT32 then
            (if i + 3 < 512
             then Inr ((push_bit 24 (ucast (buf ! (i + 3))) + push_bit 16 (ucast (buf ! (i + 2))) +
                        push_bit 8 (ucast (buf ! (i + 1))) + ucast (buf ! i)) AND 0x0FFFFFFF, s1)
             else Inl BufferOverrun)
          else Inr (EOC, s1))"

text \<open>
  \<open>write_fat_entry\<close>. The top byte of a FAT32 entry is computed as the source writes it:
  \<open>((uint8_t) (value >> 24) & 0x0FFF) + (0xF000 & sector_buffer[ent_offset+3])\<close>, in the
  integer type the operands are promoted to, and cut to 8 bits by the assignment.
\<close>

definition write_fat_entry :: "u32 \<Rightarrow> u32 \<Rightarrow> fat_state \<Rightarrow> fault + fat_state" where
  "write_fat_entry cluster_num val s =
     thn (calc_fat_block s cluster_num 0) (\<lambda>(fat_sec_num, ent_offset).
       let (r, s1) = fat_read_block fat_sec_num s;
           buf = sector_buffer s1;
           i = unat ent_offset
       in if fs_type (fs_info (mounted s1)) = FAT16 then
            (if i + 1 < 512
             then Inr (s1\<lparr>sector_buffer :=
                         buf[i + 1 := ucast (drop_bit 8 val), i := ucast val],
                       sector_buffer_dirty := 1\<rparr>)
             else Inl BufferOverrun)
          else if fs_type (fs_info (mounted s1)) = FAT32 then
            (if i + 3 < 512
             then Inr (s1\<lparr>sector_buffer :=
                         buf[i + 3 := ucast (((ucast (ucast (drop_bit 24 val) :: u8) :: u32) AND 0x0FFF) +
                                             (0xF000 AND (ucast (buf ! (i + 3)) :: u32))),
                             i + 2 := ucast (drop_bit 16 val),
                             i + 1 := ucast (drop_bit 8 val),
                             i := ucast val],
                       sector_buffer_dirty := 1\<rparr>)
             else Inl BufferOverrun)
          else Inr (s1\<lparr>sector_buffer_dirty := 1\<rparr>))"

section \<open>An example volume\<close>

text \<open>
  A FAT32 volume with 512-byte sectors, one sector per cluster, 32 reserved sectors and
  two FATs of 1024 sectors: the first FAT starts at sector 32, cluster 2 at sector 2080.
  \<open>demo_device bl ws\<close> holds the blocks \<open>bl\<close>, reads without error and answers every
  write with the status \<open>ws\<close>.
\<close>

definition demo_info :: FAT_Info where
  "demo_info = \<lparr>fs_type = FAT32, BPB_BytesPerSec = 512, BPB_SecPerClus = 1, BPB_RsvdSecCnt = 32,
     BPB_NumFATs = 2, BPB_RootEntCnt = 0, BPB_TotSec = 200000, BPB_Media = 0xF8,
     BPB_FATSz = 1024, BPB_RootClus = 2\<rparr>"

definition demo_device :: "(u32 \<Rightarrow> u8 list) \<Rightarrow> u8 \<Rightarrow> device" where
  "demo_device bl ws = \<lparr>blocks = bl, read_status = (\<lambda>_. 0), write_status = (\<lambda>_. ws), write_log = []\<rparr>"

definition demo_state :: "u8 list \<Rightarrow> u32 \<Rightarrow> u8 \<Rightarrow> device \<Rightarrow> fat_state" where
  "demo_state buf addr dirty d =
     \<lparr>sector_buffer = buf, sector_buffer_addr = addr, sector_buffer_dirty = dirty,
      cfs_readdir_offset = 0,
      mounted = \<lparr>fs_dev = 1, fs_info = demo_info, first_data_sector = 2080\<rparr>,
      fat_file_pool = [], fat_fd_pool = [], devices = (\<lambda>_. d)\<rparr>"

text \<open>
  The first FAT sector with the entry of cluster 5 (bytes 20 to 23) holding the word
  0xF0000006: next cluster 6, the four reserved bits set.
\<close>

definition fat_sector_5 :: "u8 list" where
  "fat_sector_5 = (replicate 512 0)[20 := 6, 23 := 0xF0]"

section \<open>Mount related functions\<close>

text \<open>
  The width of the C type \<open>int\<close> decides how a product of two narrow unsigned values
  is computed. Where \<open>int\<close> has 16 bits (avr-gcc, the compiler of the INGA platform) a
  \<open>uint16_t\<close> operand is an \<open>unsigned int\<close> and the product wraps modulo 65536; where
  \<open>int\<close> has 32 bits both operands are promoted to \<open>int\<close> and the product is exact.
  \<open>mul_u16 ci a b\<close> is \<open>a * b\<close> for a \<open>uint16_t\<close> a and a value b of at most 255.
\<close>

datatype c_int = Int16 | Int32

definition mul_u16 :: "c_int \<Rightarrow> u16 \<Rightarrow> u32 \<Rightarrow> u32" where
  "mul_u16 ci a b = (case ci of Int16 \<Rightarrow> ucast (a * ucast b) | Int32 \<Rightarrow> ucast a * b)"


fun power_of_2_loop :: "nat \<Rightarrow> u32 \<Rightarrow> u32 \<Rightarrow> u8" where
  "power_of_2_loop 0 test val = 1"
| "power_of_2_loop (Suc k) test val =
     (if test = val then 0 else power_of_2_loop k (push_bit 1 test) val)"







text \<open>
  \<open>FAT_FD_POOL_SIZE\<close> is defined in fat.h, which is not among the sources; both pools
  are arrays of that size, so it is the length of \<open>fat_fd_pool\<close>.
\<close>

definition FAT_FD_POOL_SIZE :: "fat_state \<Rightarrow> nat" where
  "FAT_FD_POOL_SIZE s = length (fat_fd_pool s)"









section \<open>Path resolver functions\<close>

text \<open>
  A path is a C string: the characters of the list, then the terminating NUL; an index
  past the NUL is outside the string.
\<close>

definition path_at :: "string \<Rightarrow> nat \<Rightarrow> fault + char" where
  "path_at path i =
     (if i < length path then Inr (path ! i)
      else if i = length path then Inr (CHR 0x00)
      else Inl BufferOverrun)"

text \<open>\<open>toupper\<close> of the C library, in the C locale.\<close>

definition toupper :: "char \<Rightarrow> char" where
  "toupper c =
     (if (97 :: nat) \<le> of_char c \<and> of_char c \<le> (122 :: nat)
      then char_of (of_char c - (32 :: nat)) else c)"

text \<open>
  The loop of \<open>_make_valid_name\<close>; the first argument counts the iterations left,
  \<open>end - start - i\<close>. The counters \<open>i\<close> and \<open>idx\<close> are \<open>uint8_t\<close>: \<open>i\<close> stays below
  \<open>end - start\<close>, at most 255, and \<open>idx\<close> below 12, so neither wraps. On a dot \<open>idx\<close> is
  set to 7 and the \<open>continue\<close> runs \<open>++idx\<close>: the next character goes to position 8.
\<close>

fun make_valid_name_loop ::
  "nat \<Rightarrow> string \<Rightarrow> nat \<Rightarrow> nat \<Rightarrow> nat \<Rightarrow> bool \<Rightarrow> string \<Rightarrow> fault + (u8 \<times> string)" where
  "make_valid_name_loop 0 path start i idx dot_found name = Inr (0, name)"
| "make_valid_name_loop (Suc k) path start i idx dot_found name =
     (if idx \<ge> 11 then Inr (2, name)
      else thn (path_at path (start + i)) (\<lambda>c.
        if c = CHR ''.'' then
          (if dot_found then Inr (3, name)
           else make_valid_name_loop k path start (i + 1) (7 + 1) True name)
        else if \<not> dot_found \<and> idx > 7 then Inr (4, name)
        else make_valid_name_loop k path start (i + 1) (idx + 1) dot_found
               (name[idx := toupper c])))"

text \<open>
  \<open>_make_valid_name\<close> (an Isabelle name cannot start with an underscore). The result is
  the return value and the content of \<open>name\<close>, which is written also when an error is
  returned.
\<close>

definition make_valid_name :: "string \<Rightarrow> u8 \<Rightarrow> u8 \<Rightarrow> fault + (u8 \<times> string)" where
  "make_valid_name path start end' =
     make_valid_name_loop (unat end' - unat start) path (unat start) 0 0 False
       (replicate 11 (CHR 0x20))"

record PathResolver =
  pr_start :: u16
  pr_end :: u16
  pr_path :: "string option"
  pr_name :: string

definition pr_reset :: PathResolver where
  "pr_reset = \<lparr>pr_start = 0, pr_end = 0, pr_path = None, pr_name = replicate 11 (CHR 0x00)\<rparr>"

text \<open>
  The scan of \<open>pr_get_next_path_part\<close>, with the steps it may take as first argument. The
  result is the return value and the resolver.
\<close>

fun pr_scan :: "nat \<Rightarrow> string \<Rightarrow> u16 \<Rightarrow> PathResolver \<Rightarrow> fault + (u8 \<times> PathResolver)" where
  "pr_scan 0 path i rsolv = Inl NoReturn"
| "pr_scan (Suc k) path i rsolv =
     thn (path_at path (unat i)) (\<lambda>c.
       if c = CHR 0x00 then Inr (1, rsolv)
       else
         (let rsolv1 = (if c \<noteq> CHR ''/'' then rsolv\<lparr>pr_end := pr_end rsolv + 1\<rparr> else rsolv)
          in thn (path_at path (unat (pr_end rsolv1))) (\<lambda>e.
               if e = CHR ''/'' \<or> e = CHR 0x00 then
                 thn (make_valid_name path (ucast (pr_start rsolv1)) (ucast (pr_end rsolv1)))
                   (\<lambda>(ret, name). Inr (ret, rsolv1\<lparr>pr_name := name\<rparr>))
               else pr_scan k path (i + 1) rsolv1)))"

definition pr_get_next_path_part :: "nat \<Rightarrow> PathResolver \<Rightarrow> fault + (u8 \<times> PathResolver)" where
  "pr_get_next_path_part fuel rsolv =
     (case pr_path rsolv of
        None \<Rightarrow> Inr (2, rsolv)
      | Some path \<Rightarrow>
          (let rsolv1 = rsolv\<lparr>pr_start := pr_end rsolv, pr_end := pr_end rsolv + 1\<rparr>
           in thn (path_at path (unat (pr_start rsolv1))) (\<lambda>c.
                let rsolv2 = (if c = CHR ''/'' then rsolv1\<lparr>pr_start := pr_start rsolv1 + 1\<rparr>
                              else rsolv1)
                in pr_scan fuel path (pr_start rsolv2) rsolv2)))"

definition pr_is_current_path_part_a_file :: "PathResolver \<Rightarrow> fault + u8" where
  "pr_is_current_path_part_a_file rsolv =
     thn (path_at (the (pr_path rsolv)) (unat (pr_end rsolv))) (\<lambda>c.
       if c = CHR ''/'' then Inr 0 else if c = CHR 0x00 then Inr 1 else Inr 0)"

section \<open>Cluster addresses and the next block\<close>

definition CLUSTER_TO_SECTOR :: "fat_state \<Rightarrow> u32 \<Rightarrow> u32" where
  "CLUSTER_TO_SECTOR s cluster_num =
     ((cluster_num - 2) * ucast (BPB_SecPerClus (fs_info (mounted s)))) +
     first_data_sector (mounted s)"

definition SECTOR_TO_CLUSTER :: "fat_state \<Rightarrow> u32 \<Rightarrow> fault + u32" where
  "SECTOR_TO_CLUSTER s sector_num =
     (if BPB_SecPerClus (fs_info (mounted s)) = 0 then Inl DivisionByZero
      else Inr (((sector_num - first_data_sector (mounted s)) div
                 ucast (BPB_SecPerClus (fs_info (mounted s)))) + 2))"

definition fat_next_block :: "fat_state \<Rightarrow> fault + (u8 \<times> fat_state)" where
  "fat_next_block s =
     (let s1 = fat_flush s;
          spc = (ucast (BPB_SecPerClus (fs_info (mounted s1))) :: u32)
      in if spc = 0 then Inl DivisionByZero
         else if (sector_buffer_addr s1 + 1) mod spc = 0 then
           thn (SECTOR_TO_CLUSTER s1 (sector_buffer_addr s1)) (\<lambda>c.
             thn (read_fat_entry c s1) (\<lambda>(entry, s2).
               if is_EOC s2 entry then Inr (128, s2)
               else Inr (fat_read_block (CLUSTER_TO_SECTOR s2 entry) s2)))
         else Inr (fat_read_block (sector_buffer_addr s1 + 1) s1))"

section \<open>Cluster chain functions\<close>

text \<open>\<open>find_nth_cluster\<close>: the loop runs \<open>n\<close> times.\<close>

fun find_nth_loop :: "nat \<Rightarrow> u32 \<Rightarrow> fat_state \<Rightarrow> fault + (u32 \<times> fat_state)" where
  "find_nth_loop 0 cluster s = Inr (cluster, s)"
| "find_nth_loop (Suc k) cluster s =
     thn (read_fat_entry cluster s) (\<lambda>(c, s1). find_nth_loop k c s1)"

definition find_nth_cluster :: "u32 \<Rightarrow> u32 \<Rightarrow> fat_state \<Rightarrow> fault + (u32 \<times> fat_state)" where
  "find_nth_cluster start_cluster n s = find_nth_loop (unat n) start_cluster s"

text \<open>
  The loop of \<open>reset_cluster_chain\<close>, with the steps it may take; it returns the value
  of \<open>cluster\<close> at which the walk stopped.
\<close>

fun reset_loop :: "nat \<Rightarrow> u32 \<Rightarrow> u32 \<Rightarrow> fat_state \<Rightarrow> fault + (u32 \<times> fat_state)" where
  "reset_loop 0 cluster next_cluster s = Inl NoReturn"
| "reset_loop (Suc k) cluster next_cluster s =
     (if \<not> is_EOC s cluster \<and> cluster \<ge> 2 then
        thn (write_fat_entry cluster 0 s) (\<lambda>s1.
          thn (read_fat_entry next_cluster s1) (\<lambda>(nn, s2).
            reset_loop k next_cluster nn s2))
      else Inr (cluster, s))"

definition first_cluster_of :: "dir_entry \<Rightarrow> u32" where
  "first_cluster_of dir_ent = push_bit 16 (ucast (DIR_FstClusHI dir_ent)) + ucast (DIR_FstClusLO dir_ent)"

definition reset_cluster_chain :: "nat \<Rightarrow> dir_entry \<Rightarrow> fat_state \<Rightarrow> fault + fat_state" where
  "reset_cluster_chain fuel dir_ent s =
     (let cluster = first_cluster_of dir_ent
      in thn (read_fat_entry cluster s) (\<lambda>(next_cluster, s1).
           thn (reset_loop fuel cluster next_cluster s1) (\<lambda>(cluster', s2).
             write_fat_entry cluster' 0 s2)))"

section \<open>Directory entries\<close>

text \<open>
  Modelled from the spec: \<open>struct dir_entry\<close> is declared in fat.h; it is copied to and
  from the sector buffer with \<open>memcpy\<close>, so its layout is the 32 bytes of the entry on
  disk (spec, section 3), little-endian.
\<close>

definition le16 :: "u8 list \<Rightarrow> nat \<Rightarrow> u16" where
  "le16 b i = ucast (b ! i) + push_bit 8 (ucast (b ! (i + 1)))"

definition le32 :: "u8 list \<Rightarrow> nat \<Rightarrow> u32" where
  "le32 b i = ucast (b ! i) + push_bit 8 (ucast (b ! (i + 1))) +
              push_bit 16 (ucast (b ! (i + 2))) + push_bit 24 (ucast (b ! (i + 3)))"

definition bytes16 :: "u16 \<Rightarrow> u8 list" where
  "bytes16 w = [ucast w, ucast (drop_bit 8 w)]"

definition bytes32 :: "u32 \<Rightarrow> u8 list" where
  "bytes32 w = [ucast w, ucast (drop_bit 8 w), ucast (drop_bit 16 w), ucast (drop_bit 24 w)]"

definition dir_entry_of_bytes :: "u8 list \<Rightarrow> dir_entry" where
  "dir_entry_of_bytes b =
     \<lparr>DIR_Name = take 11 b, DIR_Attr = b ! 11, DIR_NTRes = b ! 12, CrtTimeTenth = b ! 13,
      DIR_CrtTime = le16 b 14, DIR_CrtDate = le16 b 16, DIR_LstAccessDate = le16 b 18,
      DIR_FstClusHI = le16 b 20, DIR_WrtTime = le16 b 22, DIR_WrtDate = le16 b 24,
      DIR_FstClusLO = le16 b 26, DIR_FileSize = le32 b 28\<rparr>"

definition bytes_of_dir_entry :: "dir_entry \<Rightarrow> u8 list" where
  "bytes_of_dir_entry d =
     DIR_Name d @ [DIR_Attr d, DIR_NTRes d, CrtTimeTenth d] @
     bytes16 (DIR_CrtTime d) @ bytes16 (DIR_CrtDate d) @ bytes16 (DIR_LstAccessDate d) @
     bytes16 (DIR_FstClusHI d) @ bytes16 (DIR_WrtTime d) @ bytes16 (DIR_WrtDate d) @
     bytes16 (DIR_FstClusLO d) @ bytes32 (DIR_FileSize d)"

text \<open>\<open>memcpy(&buf[off], bytes, n)\<close> and the bytes \<open>&buf[off]\<close> up to \<open>&buf[off + n]\<close>.\<close>

definition buf_write :: "u8 list \<Rightarrow> nat \<Rightarrow> u8 list \<Rightarrow> u8 list" where
  "buf_write buf off bytes = take off buf @ bytes @ drop (off + length bytes) buf"

definition buf_read :: "u8 list \<Rightarrow> nat \<Rightarrow> nat \<Rightarrow> u8 list" where
  "buf_read buf off n = take n (drop off buf)"

definition bytes_of_name :: "string \<Rightarrow> u8 list" where
  "bytes_of_name name = map (\<lambda>c. of_nat (of_char c)) name"

definition ATTR_READ_ONLY :: u8 where "ATTR_READ_ONLY = 0x01"
definition ATTR_VOLUME_ID :: u8 where "ATTR_VOLUME_ID = 0x08"
definition ATTR_DIRECTORY :: u8 where "ATTR_DIRECTORY = 0x10"

text \<open>\<open>_is_file\<close>.\<close>

definition is_file :: "dir_entry \<Rightarrow> u8" where
  "is_file dir_ent =
     (if DIR_Attr dir_ent AND ATTR_DIRECTORY \<noteq> 0 then 0
      else if DIR_Attr dir_ent AND ATTR_VOLUME_ID \<noteq> 0 then 0
      else 1)"

text \<open>
  The scan of one sector in \<open>lookup\<close>: the 16 slots from offset \<open>i\<close> on. \<open>Some (0, i)\<close>
  when the name at slot \<open>i\<close> matches, \<open>Some (1, i)\<close> when slot \<open>i\<close> ends the directory,
  \<open>None\<close> when the sector is exhausted.
\<close>

fun lookup_slots :: "nat \<Rightarrow> nat \<Rightarrow> u8 list \<Rightarrow> u8 list \<Rightarrow> (u8 \<times> nat) option" where
  "lookup_slots 0 i name buf = None"
| "lookup_slots (Suc k) i name buf =
     (if buf_read buf i 11 = name then Some (0, i)
      else if buf ! i = 0x00 then Some (1, i)
      else lookup_slots k (i + 32) name buf)"

text \<open>
  \<open>lookup\<close>. The three output parameters are passed in as \<open>out\<close> and returned with the
  return value; they are written only when the name is found.
\<close>

fun lookup :: "nat \<Rightarrow> string \<Rightarrow> dir_entry \<times> u32 \<times> u16 \<Rightarrow> fat_state \<Rightarrow>
    fault + ((u8 \<times> dir_entry \<times> u32 \<times> u16) \<times> fat_state)" where
  "lookup 0 name out s = Inl NoReturn"
| "lookup (Suc k) name out s =
     (case lookup_slots 16 0 (bytes_of_name name) (sector_buffer s) of
        Some (ret, i) \<Rightarrow>
          if ret = 0
          then Inr ((0, dir_entry_of_bytes (buf_read (sector_buffer s) i 32),
                     sector_buffer_addr s, of_nat i), s)
          else Inr ((1, out), s)
      | None \<Rightarrow>
          thn (fat_next_block s) (\<lambda>(r, s1).
            if r \<noteq> 0 then Inr ((2, out), s1) else lookup k name out s1))"

text \<open>\<open>update_dir_entry\<close> and \<open>remove_dir_entry\<close>.\<close>

definition file_at :: "fat_state \<Rightarrow> int \<Rightarrow> fault + fat_file" where
  "file_at s fd =
     (if 0 \<le> fd \<and> nat fd < length (fat_file_pool s) then Inr (fat_file_pool s ! nat fd)
      else Inl BufferOverrun)"

definition fd_at :: "fat_state \<Rightarrow> int \<Rightarrow> fault + file_desc" where
  "fd_at s fd =
     (if 0 \<le> fd \<and> nat fd < length (fat_fd_pool s) then Inr (fat_fd_pool s ! nat fd)
      else Inl BufferOverrun)"

definition update_dir_entry :: "int \<Rightarrow> fat_state \<Rightarrow> fault + fat_state" where
  "update_dir_entry fd s =
     thn (file_at s fd) (\<lambda>f.
       let (r, s1) = fat_read_block (dir_entry_sector f) s
       in if r \<noteq> 0 then Inr s1
          else if unat (dir_entry_offset f) + 32 > 512 then Inl BufferOverrun
          else Inr (s1\<lparr>sector_buffer := buf_write (sector_buffer s1) (unat (dir_entry_offset f))
                                           (bytes_of_dir_entry (file_dir_entry f)),
                      sector_buffer_dirty := 1\<rparr>))"

definition remove_dir_entry :: "u32 \<Rightarrow> u16 \<Rightarrow> fat_state \<Rightarrow> fault + fat_state" where
  "remove_dir_entry dir_entry_sector' dir_entry_offset' s =
     (let (r, s1) = fat_read_block dir_entry_sector' s
      in if r \<noteq> 0 then Inr s1
         else if unat dir_entry_offset' + 32 > 512 then Inl BufferOverrun
         else Inr (s1\<lparr>sector_buffer :=
                        (buf_write (sector_buffer s1) (unat dir_entry_offset') (replicate 32 0))
                          [unat dir_entry_offset' := 0xE5],
                     sector_buffer_dirty := 1\<rparr>))"

section \<open>Free clusters\<close>

text \<open>
  \<open>_get_free_cluster_16\<close> and \<open>_get_free_cluster_32\<close>: the offset of the first
  entry of the sector buffer that is zero, from offset \<open>i\<close> on, or 512.
\<close>

fun get_free_cluster_16_loop :: "nat \<Rightarrow> nat \<Rightarrow> u8 list \<Rightarrow> u16" where
  "get_free_cluster_16_loop 0 i buf = 512"
| "get_free_cluster_16_loop (Suc k) i buf =
     (if (push_bit 8 (ucast (buf ! i)) + ucast (buf ! (i + 1)) :: u16) = 0 then of_nat i
      else get_free_cluster_16_loop k (i + 2) buf)"

fun get_free_cluster_32_loop :: "nat \<Rightarrow> nat \<Rightarrow> u8 list \<Rightarrow> u16" where
  "get_free_cluster_32_loop 0 i buf = 512"
| "get_free_cluster_32_loop (Suc k) i buf =
     (if (le32 buf i AND 0x0FFFFFFF) = 0 then of_nat i
      else get_free_cluster_32_loop k (i + 4) buf)"

text \<open>The \<open>do ... while\<close> of \<open>get_free_cluster\<close>; it returns \<open>fat_sec_num\<close> and \<open>i\<close>.\<close>

fun get_free_cluster_loop :: "nat \<Rightarrow> u32 \<Rightarrow> u16 \<Rightarrow> fat_state \<Rightarrow> fault + ((u32 \<times> u16) \<times> fat_state)" where
  "get_free_cluster_loop 0 fat_sec_num i s = Inl NoReturn"
| "get_free_cluster_loop (Suc k) fat_sec_num i s =
     (let (r, s1) = fat_read_block fat_sec_num s;
          i1 = (if fs_type (fs_info (mounted s1)) = FAT16
                then get_free_cluster_16_loop 256 0 (sector_buffer s1)
                else if fs_type (fs_info (mounted s1)) = FAT32
                then get_free_cluster_32_loop 128 0 (sector_buffer s1)
                else i)
      in if i1 = 512 then get_free_cluster_loop k (fat_sec_num + 1) i1 s1
         else Inr ((fat_sec_num + 1, i1), s1))"

definition get_free_cluster :: "nat \<Rightarrow> u32 \<Rightarrow> fat_state \<Rightarrow> fault + (u32 \<times> fat_state)" where
  "get_free_cluster fuel start_cluster s =
     thn (calc_fat_block s start_cluster 0) (\<lambda>(fat_sec_num0, ent_offset0).
       thn (get_free_cluster_loop fuel fat_sec_num0 0 s) (\<lambda>((fat_sec_num, i), s1).
         let bpb = fs_info (mounted s1);
             ent_offset = ((fat_sec_num - 1) - ucast (BPB_RsvdSecCnt bpb)) *
                          ucast (BPB_BytesPerSec bpb) + ucast i
         in Inr (if fs_type bpb = FAT16 then ent_offset div 2
                 else if fs_type bpb = FAT32 then ent_offset div 4
                 else ent_offset, s1)))"

section \<open>Adding a directory entry\<close>

fun free_slot :: "nat \<Rightarrow> nat \<Rightarrow> u8 list \<Rightarrow> nat option" where
  "free_slot 0 i buf = None"
| "free_slot (Suc k) i buf =
     (if buf ! i = 0x00 \<or> buf ! i = 0xE5 then Some i else free_slot k (i + 32) buf)"

fun add_directory_entry_to_current ::
  "nat \<Rightarrow> dir_entry \<Rightarrow> u32 \<times> u16 \<Rightarrow> fat_state \<Rightarrow> fault + ((u8 \<times> u32 \<times> u16) \<times> fat_state)" where
  "add_directory_entry_to_current 0 dir_ent out s = Inl NoReturn"
| "add_directory_entry_to_current (Suc k) dir_ent out s =
     (case free_slot 16 0 (sector_buffer s) of
        Some i \<Rightarrow>
          Inr ((1, sector_buffer_addr s, of_nat i),
               s\<lparr>sector_buffer := buf_write (sector_buffer s) i (bytes_of_dir_entry dir_ent),
                 sector_buffer_dirty := 1\<rparr>)
      | None \<Rightarrow>
          thn (fat_next_block s) (\<lambda>(ret, s1).
            if ret \<noteq> 0 then
              (if ret = 128 then
                 thn (SECTOR_TO_CLUSTER s1 (sector_buffer_addr s1)) (\<lambda>c.
                 thn (get_free_cluster (Suc k) c s1) (\<lambda>(free_cluster, s2).
                 thn (SECTOR_TO_CLUSTER s2 (sector_buffer_addr s2)) (\<lambda>c2.
                 thn (write_fat_entry c2 free_cluster s2) (\<lambda>s3.
                 thn (write_fat_entry free_cluster EOC s3) (\<lambda>s4.
                   let (r, s5) = fat_read_block (CLUSTER_TO_SECTOR s4 free_cluster) s4
                   in if r = 0 then
                        Inr ((1, sector_buffer_addr s5, 0),
                             s5\<lparr>sector_buffer := buf_write (sector_buffer s5) 0
                                                     (bytes_of_dir_entry dir_ent),
                                sector_buffer_dirty := 1\<rparr>)
                      else Inr ((0, out), s5))))))
               else Inr ((0, out), s1))
            else add_directory_entry_to_current k dir_ent out s1))"

section \<open>Resolving a path\<close>

text \<open>
  The loop of \<open>get_dir_entry\<close>; the first argument counts \<open>255 - i\<close>. The result is
  \<open>Some\<close> of the value a \<open>return\<close> inside the loop gave, or \<open>None\<close> when the loop ended,
  with \<open>file_sector_num\<close> and the output parameters.
\<close>

fun get_dir_entry_loop ::
  "nat \<Rightarrow> nat \<Rightarrow> PathResolver \<Rightarrow> u32 \<Rightarrow> dir_entry \<times> u32 \<times> u16 \<Rightarrow> u8 \<Rightarrow> fat_state \<Rightarrow>
   fault + ((u8 option \<times> u32 \<times> dir_entry \<times> u32 \<times> u16) \<times> fat_state)" where
  "get_dir_entry_loop 0 fuel pr file_sector_num out create s =
     thn (pr_get_next_path_part fuel pr) (\<lambda>(r, pr1). Inr ((None, file_sector_num, out), s))"
| "get_dir_entry_loop (Suc k) fuel pr file_sector_num out create s =
     thn (pr_get_next_path_part fuel pr) (\<lambda>(r, pr1).
       if r \<noteq> 0 then Inr ((None, file_sector_num, out), s)
       else
         (let (rb, s1) = fat_read_block file_sector_num s
          in thn (lookup fuel (pr_name pr1) out s1) (\<lambda>((found, dir_ent, sec, off), s2).
               if found \<noteq> 0 then
                 thn (pr_is_current_path_part_a_file pr1) (\<lambda>isf.
                   if isf \<noteq> 0 \<and> create \<noteq> 0 then
                     (let dir_ent1 = (dir_entry_of_bytes (replicate 32 0))
                                       \<lparr>DIR_Name := bytes_of_name (pr_name pr1), DIR_Attr := 0\<rparr>
                      in thn (add_directory_entry_to_current fuel dir_ent1 (sec, off) s2)
                           (\<lambda>((ret, sec1, off1), s3).
                              Inr ((Some ret, file_sector_num, dir_ent1, sec1, off1), s3)))
                   else Inr ((Some 0, file_sector_num, dir_ent, sec, off), s2))
               else get_dir_entry_loop k fuel pr1
                      (CLUSTER_TO_SECTOR s2 (ucast (DIR_FstClusLO dir_ent) +
                                             push_bit 16 (ucast (DIR_FstClusHI dir_ent))))
                      (dir_ent, sec, off) create s2)))"

definition get_dir_entry ::
  "nat \<Rightarrow> string \<Rightarrow> dir_entry \<times> u32 \<times> u16 \<Rightarrow> u8 \<Rightarrow> fat_state \<Rightarrow>
   fault + ((u8 \<times> dir_entry \<times> u32 \<times> u16) \<times> fat_state)" where
  "get_dir_entry fuel path out create s =
     (let pr = pr_reset\<lparr>pr_path := Some path\<rparr>;
          bpb = fs_info (mounted s);
          first_root_dir_sec_num =
            (if fs_type bpb = FAT16
             then ucast (BPB_RsvdSecCnt bpb) + (ucast (BPB_NumFATs bpb) * BPB_FATSz bpb)
             else if fs_type bpb = FAT32 then CLUSTER_TO_SECTOR s (BPB_RootClus bpb)
             else 0)
      in thn (get_dir_entry_loop 255 fuel pr first_root_dir_sec_num out create s)
           (\<lambda>((ret, file_sector_num, out1), s1).
              case ret of
                Some r \<Rightarrow> Inr ((r, out1), s1)
              | None \<Rightarrow>
                  if file_sector_num = first_root_dir_sec_num then Inr ((0, out1), s1)
                  else Inr ((1, out1), s1)))"

section \<open>The file engine\<close>

text \<open>
  Modelled from the spec: the flag bits and the seek origins are defined in cfs.h, which
  is not among the sources (Contiki's values).
\<close>

definition CFS_READ :: u8 where "CFS_READ = 1"
definition CFS_WRITE :: u8 where "CFS_WRITE = 2"
definition CFS_APPEND :: u8 where "CFS_APPEND = 4"
definition CFS_SEEK_SET :: int where "CFS_SEEK_SET = 0"
definition CFS_SEEK_CUR :: int where "CFS_SEEK_CUR = 1"
definition CFS_SEEK_END :: int where "CFS_SEEK_END = 2"

definition set_file :: "int \<Rightarrow> fat_file \<Rightarrow> fat_state \<Rightarrow> fat_state" where
  "set_file fd f s = s\<lparr>fat_file_pool := (fat_file_pool s)[nat fd := f]\<rparr>"

definition set_fd :: "int \<Rightarrow> file_desc \<Rightarrow> fat_state \<Rightarrow> fat_state" where
  "set_fd fd d s = s\<lparr>fat_fd_pool := (fat_fd_pool s)[nat fd := d]\<rparr>"

text \<open>The \<open>while\<close> of \<open>add_cluster_to_file\<close>: it returns \<open>cluster\<close>.\<close>

fun add_cluster_walk :: "nat \<Rightarrow> int \<Rightarrow> u32 \<Rightarrow> u32 \<Rightarrow> fat_state \<Rightarrow> fault + (u32 \<times> fat_state)" where
  "add_cluster_walk 0 fd cluster n s = Inl NoReturn"
| "add_cluster_walk (Suc k) fd cluster n s =
     (if \<not> is_EOC s n then
        thn (read_fat_entry n s) (\<lambda>(n1, s1).
          thn (file_at s1 fd) (\<lambda>f.
            add_cluster_walk k fd n n1 (set_file fd (f\<lparr>file_n := file_n f + 1\<rparr>) s1)))
      else Inr (cluster, s))"

definition add_cluster_to_file :: "nat \<Rightarrow> int \<Rightarrow> fat_state \<Rightarrow> fault + fat_state" where
  "add_cluster_to_file fuel fd s =
     thn (get_free_cluster fuel 0 s) (\<lambda>(free_cluster, s1).
       thn (file_at s1 fd) (\<lambda>f.
         if file_cluster f = 0 then
           thn (write_fat_entry free_cluster EOC s1) (\<lambda>s2.
             thn (file_at s2 fd) (\<lambda>f2.
               let f3 = f2\<lparr>file_dir_entry := (file_dir_entry f2)
                           \<lparr>DIR_FstClusHI := ucast (drop_bit 16 free_cluster),
                            DIR_FstClusLO := ucast free_cluster\<rparr>\<rparr>
               in thn (update_dir_entry fd (set_file fd f3 s2)) (\<lambda>s3.
                    thn (file_at s3 fd) (\<lambda>f4.
                      Inr (set_file fd (f4\<lparr>file_cluster := free_cluster, file_n := 0,
                                           nth_cluster := free_cluster\<rparr>) s3)))))
         else
           thn (add_cluster_walk fuel fd (nth_cluster f) (nth_cluster f) s1) (\<lambda>(cluster, s2).
             thn (write_fat_entry cluster free_cluster s2) (\<lambda>s3.
               thn (write_fat_entry free_cluster EOC s3) (\<lambda>s4.
                 thn (file_at s4 fd) (\<lambda>f4.
                   Inr (set_file fd (f4\<lparr>nth_cluster := free_cluster\<rparr>) s4)))))))"

definition load_next_sector_of_file ::
  "nat \<Rightarrow> int \<Rightarrow> u32 \<Rightarrow> u8 \<Rightarrow> u8 \<Rightarrow> fat_state \<Rightarrow> fault + (u8 \<times> fat_state)" where
  "load_next_sector_of_file fuel fd clusters clus_offset write s =
     thn (file_at s fd) (\<lambda>f.
       thn (if clusters = file_n f then Inr (nth_cluster f, s)
            else if clusters = file_n f + 1 then read_fat_entry (nth_cluster f) s
            else find_nth_cluster (file_cluster f) clusters s) (\<lambda>(cluster, s1).
         thn (if cluster = 0 \<or> is_EOC s1 cluster then
                (if write \<noteq> 0 then
                   thn (add_cluster_to_file fuel fd s1) (\<lambda>s2.
                     thn (file_at s2 fd) (\<lambda>f2. Inr (Some (nth_cluster f2), s2)))
                 else Inr (None, s1))
              else
                thn (file_at s1 fd) (\<lambda>f1.
                  Inr (Some cluster, set_file fd (f1\<lparr>nth_cluster := cluster, file_n := clusters\<rparr>) s1)))
           (\<lambda>(c, s3). case c of
               None \<Rightarrow> Inr (1, s3)
             | Some cluster' \<Rightarrow>
                 Inr (fat_read_block (CLUSTER_TO_SECTOR s3 cluster' + ucast clus_offset) s3))))"

section \<open>The file interface\<close>

text \<open>
  Division and remainder of C on signed integers truncate towards zero; \<open>(int) j\<close> of a
  \<open>uint16_t\<close> reads it in two's complement where \<open>int\<close> has 16 bits.
\<close>

definition c_div :: "int \<Rightarrow> int \<Rightarrow> int" where
  "c_div a b = sgn a * sgn b * (\<bar>a\<bar> div \<bar>b\<bar>)"

definition c_mod :: "int \<Rightarrow> int \<Rightarrow> int" where
  "c_mod a b = a - b * c_div a b"

definition int_of_u16 :: "c_int \<Rightarrow> u16 \<Rightarrow> int" where
  "int_of_u16 ci j = (case ci of Int16 \<Rightarrow> sint j | Int32 \<Rightarrow> uint j)"

text \<open>
  The copying loop of \<open>cfs_read\<close>, at most 512 iterations: it returns \<open>j\<close>, the caller's
  buffer and the byte cursor of the descriptor.
\<close>

fun read_copy :: "nat \<Rightarrow> u16 \<Rightarrow> u16 \<Rightarrow> nat \<Rightarrow> u8 list \<Rightarrow> u32 \<Rightarrow> u8 list \<Rightarrow> fault + (u16 \<times> u8 list \<times> u32)" where
  "read_copy 0 i j len buffer off sb = Inr (j, buffer, off)"
| "read_copy (Suc k) i j len buffer off sb =
     (if unat i < 512 \<and> unat j < len then
        (if unat j < length buffer
         then read_copy k (i + 1) (j + 1) len (buffer[unat j := sb ! unat i]) (off + 1) sb
         else Inl BufferOverrun)
      else Inr (j, buffer, off))"

fun cfs_read_loop ::
  "nat \<Rightarrow> int \<Rightarrow> u32 \<Rightarrow> u32 \<Rightarrow> u8 \<Rightarrow> u16 \<Rightarrow> nat \<Rightarrow> u8 list \<Rightarrow> fat_state \<Rightarrow>
   fault + ((u16 \<times> u8 list) \<times> fat_state)" where
  "cfs_read_loop 0 fd offset clusters clus_offset j len buffer s = Inl NoReturn"
| "cfs_read_loop (Suc k) fd offset clusters clus_offset j len buffer s =
     thn (load_next_sector_of_file k fd clusters clus_offset 0 s) (\<lambda>(r, s1).
       if r \<noteq> 0 then Inr ((j, buffer), s1)
       else
         thn (fd_at s1 fd) (\<lambda>d.
           thn (read_copy 512 (ucast offset) j len buffer (fd_offset d) (sector_buffer s1))
             (\<lambda>(j1, buffer1, off1).
                let s2 = set_fd fd (d\<lparr>fd_offset := off1\<rparr>) s1;
                    spc = unat (BPB_SecPerClus (fs_info (mounted s2)))
                in if spc = 0 then Inl DivisionByZero
                   else
                     (let (clus_offset1, clusters1) =
                            (if (unat clus_offset + 1) mod spc = 0 then (0, clusters + 1)
                             else (clus_offset + 1, clusters))
                      in if unat j1 \<ge> len then Inr ((j1, buffer1), s2)
                         else cfs_read_loop k fd offset clusters1 clus_offset1 j1 len buffer1 s2))))"

text \<open>
  \<open>cfs_read\<close>. The initialisers of the locals read \<open>fat_fd_pool[fd]\<close> and divide by
  the geometry of the volume before \<open>fd\<close> is checked. The result is the return value
  and the caller's buffer.
\<close>

definition cfs_read ::
  "c_int \<Rightarrow> nat \<Rightarrow> int \<Rightarrow> u8 list \<Rightarrow> nat \<Rightarrow> fat_state \<Rightarrow> fault + ((int \<times> u8 list) \<times> fat_state)" where
  "cfs_read ci fuel fd buf len s =
     thn (fd_at s fd) (\<lambda>d.
       let bps = uint (BPB_BytesPerSec (fs_info (mounted s)));
           spc = uint (BPB_SecPerClus (fs_info (mounted s)))
       in if bps = 0 \<or> spc = 0 then Inl DivisionByZero
          else
            (let offset = (word_of_int (c_mod (sint (fd_offset d)) bps) :: u32);
                 clusters = (word_of_int (c_div (c_div (sint (fd_offset d)) bps) spc) :: u32);
                 clus_offset = (word_of_int (c_mod (c_div (sint (fd_offset d)) bps) spc) :: u8)
             in if fd < 0 \<or> fd \<ge> int (FAT_FD_POOL_SIZE s) then Inr ((- 1, buf), s)
                else
                  thn (file_at s fd) (\<lambda>f.
                    if file_cluster f = 0 then Inr ((0, buf), s)
                    else if fd_flags d AND CFS_READ = 0 then Inr ((- 1, buf), s)
                    else
                      thn (cfs_read_loop fuel fd offset clusters clus_offset 0 len buf s)
                        (\<lambda>((j, buffer), s1). Inr ((int_of_u16 ci j, buffer), s1)))))"

text \<open>
  \<open>cfs_seek\<close>. The cursor and \<open>offset\<close> are signed; the comparison with the unsigned
  \<open>DIR_FileSize\<close> converts the cursor to unsigned, the test against 0 reads it signed.
\<close>

definition cfs_seek :: "int \<Rightarrow> u32 \<Rightarrow> int \<Rightarrow> fat_state \<Rightarrow> fault + (u32 \<times> fat_state)" where
  "cfs_seek fd offset whence s =
     (if fd < 0 \<or> fd \<ge> int (FAT_FD_POOL_SIZE s) then Inr (- 1, s)
      else
        thn (fd_at s fd) (\<lambda>d.
          thn (file_at s fd) (\<lambda>f.
            let file_size = DIR_FileSize (file_dir_entry f);
                o1 = (if whence = CFS_SEEK_SET then offset
                      else if whence = CFS_SEEK_CUR then fd_offset d + offset
                      else if whence = CFS_SEEK_END then (file_size - 1) + offset
                      else fd_offset d);
                o2 = (if o1 \<ge> file_size then file_size - 1 else o1);
                o3 = (if o2 <s 0 then 0 else o2)
            in Inr (o3, set_fd fd (d\<lparr>fd_offset := o3\<rparr>) s))))"

text \<open>
  \<open>cfs_remove\<close>. \<open>locals\<close> is what the uninitialised \<open>dir_ent\<close>, \<open>sector\<close> and \<open>offset\<close>
  hold when the function is entered.
\<close>

definition cfs_remove ::
  "nat \<Rightarrow> string \<Rightarrow> dir_entry \<times> u32 \<times> u16 \<Rightarrow> fat_state \<Rightarrow> fault + (int \<times> fat_state)" where
  "cfs_remove fuel name locals s =
     thn (get_dir_entry fuel name locals 0 s) (\<lambda>((r, dir_ent, sector, offset), s1).
       if r = 0 then Inr (- 1, s1)
       else if is_file dir_ent \<noteq> 0 then
         thn (reset_cluster_chain fuel dir_ent s1) (\<lambda>s2.
           thn (remove_dir_entry sector offset s2) (\<lambda>s3.
             Inr (0, fat_flush s3)))
       else Inr (- 1, s1))"

text \<open>
  Modelled from the spec: \<open>struct cfs_dirent\<close> is declared in cfs.h: a name and a size.
\<close>

record cfs_dirent =
  dirent_name :: "u8 list"
  dirent_size :: u32

fun make_readable_loop :: "nat \<Rightarrow> nat \<Rightarrow> nat \<Rightarrow> u8 list \<Rightarrow> u8 list \<Rightarrow> u8 list" where
  "make_readable_loop 0 i j dname name = name"
| "make_readable_loop (Suc k) i j dname name =
     (let (name1, j1) = (if dname ! i \<noteq> 0x20 then (name[j := dname ! i], j + 1) else (name, j));
          (name2, j2) = (if i = 7 then (name1[j1 := 0x2E], j1 + 1) else (name1, j1))
      in make_readable_loop k (i + 1) j2 dname name2)"

definition make_readable_entry :: "dir_entry \<Rightarrow> cfs_dirent \<Rightarrow> cfs_dirent" where
  "make_readable_entry dir dirent =
     dirent\<lparr>dirent_name := make_readable_loop 11 0 0 (DIR_Name dir) (dirent_name dirent)\<rparr>"

text \<open>
  \<open>cfs_readdir\<close>. \<open>dirp\<close> holds the directory entry \<open>cfs_opendir\<close> copied into it.
  \<open>cluster_num\<close> is \<open>dir_off / mounted.info.BPB_SecPerClus\<close>, cut to 16 bits.
\<close>

definition cfs_readdir ::
  "c_int \<Rightarrow> dir_entry \<Rightarrow> cfs_dirent \<Rightarrow> fat_state \<Rightarrow> fault + ((int \<times> cfs_dirent) \<times> fat_state)" where
  "cfs_readdir ci dirp dirent s =
     (let dir_off = mul_u16 ci (cfs_readdir_offset s) 32;
          bpb = fs_info (mounted s)
      in if BPB_SecPerClus bpb = 0 then Inl DivisionByZero
         else
           (let cluster_num = (ucast (dir_off div ucast (BPB_SecPerClus bpb)) :: u16)
            in thn (find_nth_cluster (first_cluster_of dirp) (ucast cluster_num) s) (\<lambda>(cluster, s1).
                 if cluster = 0 then Inr ((- 1, dirent), s1)
                 else if BPB_BytesPerSec bpb = 0 then Inl DivisionByZero
                 else
                   (let (r, s2) = fat_read_block (CLUSTER_TO_SECTOR s1 cluster +
                                                  dir_off div ucast (BPB_BytesPerSec bpb)) s1;
                        off = unat (dir_off mod ucast (BPB_BytesPerSec bpb))
                    in if r \<noteq> 0 then Inr ((- 1, dirent), s2)
                       else if off + 32 > 512 then Inl BufferOverrun
                       else
                         (let entry = dir_entry_of_bytes (buf_read (sector_buffer s2) off 32);
                              dirent1 = make_readable_entry entry dirent
                          in Inr ((0, dirent1\<lparr>dirent_size := DIR_FileSize entry\<rparr>),
                                  s2\<lparr>cfs_readdir_offset := cfs_readdir_offset s2 + 1\<rparr>))))))"

text \<open>
  An open file in slot 0 of the pools, on the example volume: \<open>demo_file first sz\<close> is
  a file with first cluster \<open>first\<close> and \<open>sz\<close> bytes, \<open>open_state flags cursor f\<close> the
  driver with \<open>f\<close> open under \<open>flags\<close> and the byte cursor at \<open>cursor\<close>.
\<close>

definition demo_file :: "u32 \<Rightarrow> u32 \<Rightarrow> fat_file" where
  "demo_file first sz =
     \<lparr>file_cluster = first, dir_entry_sector = 2080, dir_entry_offset = 0,
      file_dir_entry = (dir_entry_of_bytes (replicate 32 0))
        \<lparr>DIR_Name := bytes_of_name ''FOO     TXT'',
         DIR_FstClusHI := ucast (drop_bit 16 first), DIR_FstClusLO := ucast first,
         DIR_FileSize := sz\<rparr>,
      nth_cluster = first, file_n = 0\<rparr>"

definition open_state :: "u8 \<Rightarrow> u32 \<Rightarrow> fat_file \<Rightarrow> fat_state" where
  "open_state flags cursor f =
     (demo_state (replicate 512 0) 0 0 (demo_device (\<lambda>_. replicate 512 0) 0))
       \<lparr>fat_file_pool := [f],
        fat_fd_pool := [\<lparr>fd_offset = cursor, fd_file = Some 0, fd_flags = flags\<rparr>]\<rparr>"

text \<open>
  The clamp of the spec: the cursor \<open>x\<close> brought into the range from 0 to
  \<open>file_size - 1\<close>.
\<close>

definition seek_clamp :: "int \<Rightarrow> int \<Rightarrow> int" where
  "seek_clamp file_size x = max 0 (min (file_size - 1) x)"

text \<open>
  The example volume with content. The first FAT sector: entries 0 and 1 reserved, the
  root directory in cluster 2 alone, and the chain 5, 6 of a file. The sector of the root
  directory (sector 2080): FOO.TXT, 700 bytes from cluster 5, and the empty BAR.TXT.
\<close>

definition demo_fat_sector :: "u8 list" where
  "demo_fat_sector = (replicate 512 0)
     [0 := 0xF8, 1 := 0xFF, 2 := 0xFF, 3 := 0x0F,
      4 := 0xFF, 5 := 0xFF, 6 := 0xFF, 7 := 0x0F,
      8 := 0xFF, 9 := 0xFF, 10 := 0xFF, 11 := 0x0F,
      20 := 0x06,
      24 := 0xFF, 25 := 0xFF, 26 := 0xFF, 27 := 0x0F]"

definition demo_dir_sector :: "u8 list" where
  "demo_dir_sector =
     buf_write (buf_write (replicate 512 0) 0
       (bytes_of_dir_entry ((dir_entry_of_bytes (replicate 32 0))
          \<lparr>DIR_Name := bytes_of_name ''FOO     TXT'', DIR_Attr := 0x20,
           DIR_FstClusLO := 5, DIR_FileSize := 700\<rparr>))) 32
       (bytes_of_dir_entry ((dir_entry_of_bytes (replicate 32 0))
          \<lparr>DIR_Name := bytes_of_name ''BAR     TXT'', DIR_Attr := 0x20\<rparr>))"

definition volume_state :: fat_state where
  "volume_state =
     demo_state (replicate 512 0) 0 0
       (demo_device (\<lambda>a. if a = 32 then demo_fat_sector
                          else if a = 2080 then demo_dir_sector
                          else replicate 512 0) 0)"

text \<open>The directory entry of the root directory, as \<open>cfs_opendir\<close> leaves it in \<open>dirp\<close>.\<close>

definition root_dirp :: dir_entry where
  "root_dirp = (dir_entry_of_bytes (replicate 32 0))\<lparr>DIR_Attr := 0x10, DIR_FstClusLO := 2\<rparr>"

definition empty_dirent :: cfs_dirent where
  "empty_dirent = \<lparr>dirent_name = replicate 32 0, dirent_size = 0\<rparr>"

text \<open>
  The cluster index of the spec for the entry number \<open>k\<close>: \<open>(k * 32) / (sec_per_clus * 512)\<close>.
\<close>

definition readdir_cluster_index :: "nat \<Rightarrow> nat \<Rightarrow> nat" where
  "readdir_cluster_index k sec_per_clus = (k * 32) div (sec_per_clus * 512)"

section \<open>The volume as the driver sees it\<close>

text \<open>
  The content of sector \<open>a\<close> as the driver sees it: the sector buffer when it holds
  unwritten changes of \<open>a\<close>, the block of the mounted device otherwise.
\<close>

definition view :: "fat_state \<Rightarrow> u32 \<Rightarrow> u8 list" where
  "view s a =
     (if sector_buffer_dirty s \<noteq> 0 \<and> sector_buffer_addr s = a then sector_buffer s
      else blocks (mounted_device s) a)"

text \<open>A device on which every read and every write succeeds.\<close>

definition reliable :: "device \<Rightarrow> bool" where
  "reliable d = (\<forall>a. read_status d a = DISKIO_SUCCESS \<and> write_status d a = DISKIO_SUCCESS)"

text \<open>
  The sector buffer and the blocks have 512 bytes, the device is reliable, and a clean
  buffer that names a sector holds the block of that sector.
\<close>

definition coherent :: "fat_state \<Rightarrow> bool" where
  "coherent s =
     (length (sector_buffer s) = 512 \<and>
      (\<forall>a. length (blocks (mounted_device s) a) = 512) \<and>
      reliable (mounted_device s) \<and>
      (sector_buffer_dirty s = 0 \<and> sector_buffer_addr s \<noteq> 0 \<longrightarrow>
         sector_buffer s = blocks (mounted_device s) (sector_buffer_addr s)))"

text \<open>A mounted FAT16 or FAT32 volume with sectors of 512 bytes.\<close>

definition fat_volume :: "fat_state \<Rightarrow> bool" where
  "fat_volume s =
     (BPB_BytesPerSec (fs_info (mounted s)) = 512 \<and>
      (fs_type (fs_info (mounted s)) = FAT16 \<or> fs_type (fs_info (mounted s)) = FAT32))"

text \<open>
  Where the FAT entry of cluster \<open>c\<close> lies (\<open>calc_fat_block\<close>), and its value in the
  view of the volume, decoded as \<open>read_fat_entry\<close> decodes it.
\<close>

definition fat_sector :: "fat_state \<Rightarrow> u32 \<Rightarrow> u32" where
  "fat_sector s c = (case calc_fat_block s c 0 of Inr (sec, off) \<Rightarrow> sec | Inl e \<Rightarrow> 0)"

definition fat_offset :: "fat_state \<Rightarrow> u32 \<Rightarrow> nat" where
  "fat_offset s c = (case calc_fat_block s c 0 of Inr (sec, off) \<Rightarrow> unat off | Inl e \<Rightarrow> 0)"

definition fat_get :: "fat_state \<Rightarrow> u32 \<Rightarrow> u32" where
  "fat_get s c =
     (let buf = view s (fat_sector s c); i = fat_offset s c
      in if fs_type (fs_info (mounted s)) = FAT16
         then push_bit 8 (ucast (buf ! (i + 1))) + ucast (buf ! i)
         else if fs_type (fs_info (mounted s)) = FAT32
         then (push_bit 24 (ucast (buf ! (i + 3))) + push_bit 16 (ucast (buf ! (i + 2))) +
               push_bit 8 (ucast (buf ! (i + 1))) + ucast (buf ! i)) AND 0x0FFFFFFF
         else EOC)"

text \<open>
  \<open>chain g c cs e\<close>: following the FAT \<open>g\<close> from \<open>c\<close> visits the clusters \<open>cs\<close> in
  order and then arrives at \<open>e\<close>. A cluster of a file is at least 2, is no end-of-chain
  mark and, like every value read from the FAT, has at most 28 bits; the value that ends
  a chain is an end-of-chain mark or is below 2.
\<close>

fun chain :: "(u32 \<Rightarrow> u32) \<Rightarrow> u32 \<Rightarrow> u32 list \<Rightarrow> u32 \<Rightarrow> bool" where
  "chain g c [] e = (c = e)"
| "chain g c (x # xs) e = (c = x \<and> chain g (g x) xs e)"

definition valid_cluster :: "fat_state \<Rightarrow> u32 \<Rightarrow> bool" where
  "valid_cluster s c = (2 \<le> c \<and> c < 0x10000000 \<and> \<not> is_EOC s c)"

definition chain_end :: "fat_state \<Rightarrow> u32 \<Rightarrow> bool" where
  "chain_end s e = (e < 0x10000000 \<and> (is_EOC s e \<or> e < 2))"

text \<open>The 32 bytes of the directory entry at offset \<open>off\<close> of sector \<open>sec\<close>, in the view.\<close>

definition dir_entry_on_volume :: "fat_state \<Rightarrow> u32 \<Rightarrow> u16 \<Rightarrow> u8 list" where
  "dir_entry_on_volume s sec off = buf_read (view s sec) (unat off) 32"

text \<open>
  \<open>unchanged s s'\<close>: from \<open>s\<close> to \<open>s'\<close> the view of the volume and the mounted
  descriptor stay as they are, and \<open>s'\<close> is coherent.
\<close>

definition unchanged :: "fat_state \<Rightarrow> fat_state \<Rightarrow> bool" where
  "unchanged s s' = (coherent s' \<and> view s' = view s \<and> mounted s' = mounted s)"

text \<open>The directory entries of FOO.TXT and BAR.TXT as \<open>lookup\<close> reads them from the example volume.\<close>

definition foo_entry :: dir_entry where
  "foo_entry = dir_entry_of_bytes (buf_read demo_dir_sector 0 32)"

definition bar_entry :: dir_entry where
  "bar_entry = dir_entry_of_bytes (buf_read demo_dir_sector 32 32)"


text \<open>
  A FAT32 volume of a little more than 1 GiB: 512-byte sectors, one sector per cluster,
  32 reserved sectors, two FATs of 16384 sectors, cluster 2 at sector 0x8020. The root
  directory (cluster 2) holds the directory DIR, whose only cluster is 0x1F8001, that
  is sector 0x20001F. That sector holds fifteen deleted entries and, as its last entry
  at offset 480, FOO.TXT: 700 bytes, chain 5, 6. The FAT sector 32 is the one of the
  example volume; sector 0x3F20 holds the FAT entry of cluster 0x1F8001, an end-of-chain
  mark. \<open>far_volume_state\<close> is the driver with that volume mounted.
\<close>

definition far_info :: FAT_Info where
  "far_info = \<lparr>fs_type = FAT32, BPB_BytesPerSec = 512, BPB_SecPerClus = 1, BPB_RsvdSecCnt = 32,
     BPB_NumFATs = 2, BPB_RootEntCnt = 0, BPB_TotSec = 0x208000, BPB_Media = 0xF8,
     BPB_FATSz = 0x4000, BPB_RootClus = 2\<rparr>"

definition far_fat_sector :: "u8 list" where
  "far_fat_sector = (replicate 512 0)[4 := 0xFF, 5 := 0xFF, 6 := 0xFF, 7 := 0x0F]"

definition far_root_sector :: "u8 list" where
  "far_root_sector =
     buf_write (replicate 512 0) 0
       (bytes_of_dir_entry ((dir_entry_of_bytes (replicate 32 0))
          \<lparr>DIR_Name := bytes_of_name ''DIR        '', DIR_Attr := 0x10,
           DIR_FstClusHI := 0x001F, DIR_FstClusLO := 0x8001\<rparr>))"

definition far_foo_entry :: dir_entry where
  "far_foo_entry = (dir_entry_of_bytes (replicate 32 0))
     \<lparr>DIR_Name := bytes_of_name ''FOO     TXT'', DIR_Attr := 0x20,
      DIR_FstClusLO := 5, DIR_FileSize := 700\<rparr>"

definition far_dir_sector :: "u8 list" where
  "far_dir_sector =
     concat (replicate 15 (0xE5 # replicate 31 0)) @ bytes_of_dir_entry far_foo_entry"

definition far_volume_state :: fat_state where
  "far_volume_state =
     \<lparr>sector_buffer = replicate 512 0, sector_buffer_addr = 0, sector_buffer_dirty = 0,
      cfs_readdir_offset = 0,
      mounted = \<lparr>fs_dev = 1, fs_info = far_info, first_data_sector = 0x8020\<rparr>,
      fat_file_pool = [], fat_fd_pool = [],
      devices = (\<lambda>_. demo_device (\<lambda>a. if a = 32 then demo_fat_sector
                                        else if a = 0x3F20 then far_fat_sector
                                        else if a = 0x8020 then far_root_sector
                                        else if a = 0x20001F then far_dir_sector
                                        else replicate 512 0) 0)\<rparr>"

text \<open>
  What the locals \<open>dir_ent\<close>, \<open>sector\<close> and \<open>offset\<close> of a caller hold before the
  call, taken as zero; and the example volume on a device that fails every write.
\<close>

definition no_entry :: "dir_entry \<times> u32 \<times> u16" where
  "no_entry = (dir_entry_of_bytes (replicate 32 0), 0, 0)"

definition failing_volume_state :: fat_state where
  "failing_volume_state =
     volume_state\<lparr>devices := (\<lambda>_. (mounted_device volume_state)\<lparr>write_status := (\<lambda>_. 1)\<rparr>)\<rparr>"

section \<open>Properties\<close>

lemma thn_simps [simp]: "thn (Inl e) f = Inl e" "thn (Inr x) f = f x"
  by (simp_all add: thn_def)

subsection \<open>The sector buffer\<close>

text \<open>
  C8. Calling \<open>fat_flush\<close> twice in immediate succession performs exactly one device
  write when the sector buffer starts dirty: the first call writes the buffer at its
  address and clears the dirty flag, the second changes nothing at all. It performs no
  device write when the buffer starts clean. The last conjunct counts the write
  requests of every device.
\<close>

theorem fat_flush_twice:
  "(sector_buffer_dirty s \<noteq> 0 \<longrightarrow>
      write_log (mounted_device (fat_flush s)) =
        write_log (mounted_device s) @ [(sector_buffer_addr s, sector_buffer s)] \<and>
      sector_buffer_dirty (fat_flush s) = 0) \<and>
   (sector_buffer_dirty s = 0 \<longrightarrow> fat_flush s = s) \<and>
   fat_flush (fat_flush s) = fat_flush s \<and>
   (\<forall>k. length (write_log (devices (fat_flush (fat_flush s)) k)) =
        length (write_log (devices s k)) +
        (if sector_buffer_dirty s \<noteq> 0 \<and> k = fs_dev (mounted s) then 1 else 0))"
  by (auto simp: fat_flush_def mounted_device_def diskio_write_block_def Let_def split: prod.splits)

theorem fat_flush_twice_witness:
  "sector_buffer_dirty (demo_state (replicate 512 7) 40 1 (demo_device (\<lambda>_. replicate 512 0) 0)) \<noteq> 0 \<and>
   write_log (mounted_device (fat_flush (fat_flush
     (demo_state (replicate 512 7) 40 1 (demo_device (\<lambda>_. replicate 512 0) 0))))) =
     [(40, replicate 512 7)] \<and>
   sector_buffer_dirty (demo_state (replicate 512 7) 40 0 (demo_device (\<lambda>_. replicate 512 0) 0)) = 0 \<and>
   write_log (mounted_device (fat_flush (fat_flush
     (demo_state (replicate 512 7) 40 0 (demo_device (\<lambda>_. replicate 512 0) 0))))) = []"
  using fat_flush_twice [of "demo_state (replicate 512 7) 40 1 (demo_device (\<lambda>_. replicate 512 0) 0)"]
        fat_flush_twice [of "demo_state (replicate 512 7) 40 0 (demo_device (\<lambda>_. replicate 512 0) 0)"]
  by (simp add: demo_state_def demo_device_def mounted_device_def)

text \<open>
  C9. \<open>fat_flush\<close> clears the dirty flag whatever the device answers, and it returns
  nothing: after it the flag is 0 in every state. When the write failed the block on
  the device is as it was, and since the flag is clear a further \<open>fat_flush\<close> does
  nothing, so the buffer's content is never written again. \<open>fat_read_block\<close>, which
  flushes before it loads, returns the status of its read only.
\<close>

theorem fat_flush_drops_failed_write:
  "sector_buffer_dirty (fat_flush s) = 0 \<and>
   (sector_buffer_dirty s \<noteq> 0 \<and>
    write_status (mounted_device s) (sector_buffer_addr s) \<noteq> DISKIO_SUCCESS \<longrightarrow>
      blocks (mounted_device (fat_flush s)) = blocks (mounted_device s) \<and>
      fat_flush (fat_flush s) = fat_flush s) \<and>
   fst (fat_read_block a s) =
     (if sector_buffer_addr s = a \<and> a \<noteq> 0 then 0 else read_status (mounted_device s) a)"
  by (auto simp: fat_flush_def fat_read_block_def mounted_device_def diskio_write_block_def
      diskio_read_block_def DISKIO_SUCCESS_def Let_def split: prod.splits)

theorem fat_flush_drops_failed_write_witness:
  "sector_buffer_dirty (demo_state (replicate 512 7) 40 1 (demo_device (\<lambda>_. replicate 512 0) 1)) \<noteq> 0 \<and>
   write_status (mounted_device (demo_state (replicate 512 7) 40 1 (demo_device (\<lambda>_. replicate 512 0) 1))) 40
     \<noteq> DISKIO_SUCCESS \<and>
   sector_buffer_dirty (fat_flush (demo_state (replicate 512 7) 40 1 (demo_device (\<lambda>_. replicate 512 0) 1))) = 0 \<and>
   blocks (mounted_device (fat_flush (demo_state (replicate 512 7) 40 1 (demo_device (\<lambda>_. replicate 512 0) 1)))) 40
     = replicate 512 0"
  using fat_flush_drops_failed_write [of "demo_state (replicate 512 7) 40 1 (demo_device (\<lambda>_. replicate 512 0) 1)"]
  by (simp add: demo_state_def demo_device_def mounted_device_def DISKIO_SUCCESS_def)

subsection \<open>Writing a FAT entry\<close>

lemma push_bit_and_ucast8: "push_bit 12 (y :: u32) AND (ucast (b :: u8) :: u32) = 0"
  by (rule bit_eqI) (auto simp: bit_simps dest!: bit_imp_le_length)

lemma ucast8_and_mask12: "(ucast (x :: u8) :: u32) AND mask 12 = ucast x"
  by (rule bit_eqI) (auto simp: bit_simps dest: bit_imp_le_length)

lemma ucast_ucast8: "(ucast (ucast (x :: u8) :: u32) :: u8) = x"
  by (rule bit_eqI) (auto simp: bit_simps dest: bit_imp_le_length)

text \<open>
  The byte \<open>write_fat_entry\<close> stores at \<open>ent_offset + 3\<close> is the top byte of the value:
  the mask 0xF000 keeps nothing of the byte that was there.
\<close>

lemma top_byte:
  "(ucast (((ucast (x :: u8) :: u32) AND 0x0FFF) + (0xF000 AND (ucast (b :: u8) :: u32))) :: u8) = x"
proof -
  have hi: "(0xF000 :: u32) = push_bit 12 0xF" by simp
  have lo: "(0x0FFF :: u32) = mask 12" by (simp add: mask_eq_exp_minus_1)
  have "(0xF000 AND (ucast b :: u32)) = 0"
    by (subst hi) (rule push_bit_and_ucast8)
  moreover have "((ucast x :: u32) AND 0x0FFF) = ucast x"
    by (subst lo) (rule ucast8_and_mask12)
  ultimately show ?thesis by (simp add: ucast_ucast8)
qed

text \<open>
  C1. On a FAT32 volume \<open>write_fat_entry\<close> is to encode the low 28 bits of the value
  into the entry and leave the upper 4 bits of the word on disk as they are. Here the
  entry of cluster 5 holds 0xF0000006 (top byte 0xF0) and the value 0 is written: the
  sector buffer is the FAT sector 32, it is marked dirty, and the top byte of the entry
  is 0, so the four reserved bits are lost.
\<close>

theorem write_fat_entry_overwrites_top_nibble:
  "\<exists>s'. write_fat_entry 5 0
           (demo_state (replicate 512 0) 0 0
              (demo_device (\<lambda>a. if a = 32 then fat_sector_5 else replicate 512 0) 0)) = Inr s' \<and>
        sector_buffer_addr s' = 32 \<and> sector_buffer_dirty s' = 1 \<and>
        fat_sector_5 ! 23 = 0xF0 \<and> sector_buffer s' ! 23 = 0"
  by (simp add: write_fat_entry_def calc_fat_block_def fat_read_block_def fat_flush_def
      diskio_read_block_def DISKIO_SUCCESS_def mounted_device_def demo_state_def demo_device_def
      demo_info_def fat_sector_5_def Let_def)

subsection \<open>Mounting\<close>


lemma power_of_2_loop_range: "power_of_2_loop k t v = 0 \<or> power_of_2_loop k t v = 1"
  by (induction k arbitrary: t) auto



lemma thn_Inr_iff: "thn m f = Inr y \<longleftrightarrow> (\<exists>x. m = Inr x \<and> f x = Inr y)"
  by (cases m) auto


























subsection \<open>Path canonicalization\<close>

lemma path_at_mid: "path_at (p1 @ x # p2) (length p1) = Inr x"
  by (simp add: path_at_def nth_append)

lemma make_valid_name_loop_copy:
  assumes "CHR ''.'' \<notin> set xs" and "idx + length xs \<le> (if d then 11 else 8)"
    and "length name = 11" and "start + i = length p1"
  shows "make_valid_name_loop (length xs + k) (p1 @ xs @ p2) start i idx d name =
         make_valid_name_loop k (p1 @ xs @ p2) start (i + length xs) (idx + length xs) d
           (take idx name @ map toupper xs @ drop (idx + length xs) name)"
  using assms
proof (induction xs arbitrary: i idx name p1)
  case Nil
  then show ?case by simp
next
  case (Cons x xs)
  have idx: "idx < 11" "d \<or> idx \<le> 7" using Cons.prems(2) by (auto split: if_splits)
  have x: "x \<noteq> CHR ''.''" using Cons.prems(1) by auto
  have at: "path_at (p1 @ (x # xs) @ p2) (start + i) = Inr x"
    using path_at_mid[of p1 x "xs @ p2"] Cons.prems(4) by simp
  have step: "make_valid_name_loop (length (x # xs) + k) (p1 @ (x # xs) @ p2) start i idx d name =
      make_valid_name_loop (length xs + k) ((p1 @ [x]) @ xs @ p2) start (i + 1) (idx + 1) d
        (name[idx := toupper x])"
    using idx x at by auto
  have ih: "make_valid_name_loop (length xs + k) ((p1 @ [x]) @ xs @ p2) start (i + 1) (idx + 1) d
        (name[idx := toupper x]) =
      make_valid_name_loop k ((p1 @ [x]) @ xs @ p2) start (i + 1 + length xs) (idx + 1 + length xs) d
        (take (idx + 1) (name[idx := toupper x]) @ map toupper xs @
         drop (idx + 1 + length xs) (name[idx := toupper x]))"
    using Cons.prems by (intro Cons.IH) (auto split: if_splits)
  have nm: "take (idx + 1) (name[idx := toupper x]) @ map toupper xs @
         drop (idx + 1 + length xs) (name[idx := toupper x]) =
       take idx name @ map toupper (x # xs) @ drop (idx + length (x # xs)) name"
    using idx(1) Cons.prems(3) by (simp add: take_Suc_conv_app_nth)
  show ?case unfolding step ih nm by simp
qed

lemma make_valid_name_loop_dot:
  assumes "idx < 11" and "start + i = length p1"
  shows "make_valid_name_loop (Suc k) (p1 @ CHR ''.'' # p2) start i idx False name =
         make_valid_name_loop k (p1 @ CHR ''.'' # p2) start (i + 1) 8 True name"
  using assms path_at_mid[of p1 "CHR ''.''" p2] by simp

lemma unat_of_nat_u8: "n \<le> 255 \<Longrightarrow> unat (of_nat n :: u8) = n"
  by (simp add: unat_of_nat)

lemma toupper_alphabet:
  "map toupper ''abcdefghijklmnopqrstuvwxyz'' = ''ABCDEFGHIJKLMNOPQRSTUVWXYZ''"
  "map toupper ''ABCDEFGHIJKLMNOPQRSTUVWXYZ'' = ''ABCDEFGHIJKLMNOPQRSTUVWXYZ''"
  by code_simp+

text \<open>
  C7. A path token made of a base of at most 8 characters, one dot and an extension of
  at most 3 characters, wherever it stands in the path, is canonicalized with return
  value 0, and the 11-byte name is the base, each character folded by \<open>toupper\<close>, padded
  with spaces to 8 bytes, followed by the extension, folded and padded to 3 bytes: the
  dot is not copied, and the character after it is written at position 8, the start of
  the extension field. \<open>toupper\<close> maps every lowercase ASCII letter to the uppercase
  letter and leaves the uppercase letters as they are. So "foo.txt", "FOO.TXT" and
  "Foo.TxT" give the same name "FOO     TXT".
\<close>

theorem make_valid_name_canonical:
  assumes "CHR ''.'' \<notin> set base" and "CHR ''.'' \<notin> set ext"
    and "length base \<le> 8" and "length ext \<le> 3"
    and "length pre + length base + 1 + length ext \<le> 255"
  shows "make_valid_name (pre @ base @ CHR ''.'' # ext @ post) (of_nat (length pre))
           (of_nat (length pre + length base + 1 + length ext)) =
         Inr (0, map toupper base @ replicate (8 - length base) (CHR 0x20) @
                 map toupper ext @ replicate (3 - length ext) (CHR 0x20)) \<and>
         map toupper ''abcdefghijklmnopqrstuvwxyz'' = ''ABCDEFGHIJKLMNOPQRSTUVWXYZ'' \<and>
         map toupper ''ABCDEFGHIJKLMNOPQRSTUVWXYZ'' = ''ABCDEFGHIJKLMNOPQRSTUVWXYZ''"
proof -
  let ?path = "pre @ base @ CHR ''.'' # ext @ post"
  let ?sp = "replicate 11 (CHR 0x20)"
  let ?n1 = "map toupper base @ replicate (11 - length base) (CHR 0x20)"
  have e: "unat (of_nat (length pre + length base + 1 + length ext) :: u8) =
           length pre + length base + 1 + length ext"
    by (rule unat_of_nat_u8[OF assms(5)])
  have s: "unat (of_nat (length pre) :: u8) = length pre"
    by (rule unat_of_nat_u8) (use assms(5) in simp)
  have p1: "make_valid_name_loop (length base + Suc (length ext + 0)) (pre @ base @ (CHR ''.'' # ext @ post))
              (length pre) 0 0 False ?sp =
            make_valid_name_loop (Suc (length ext + 0)) (pre @ base @ (CHR ''.'' # ext @ post))
              (length pre) (0 + length base) (0 + length base) False
              (take 0 ?sp @ map toupper base @ drop (0 + length base) ?sp)"
    using assms(1,3) by (intro make_valid_name_loop_copy) auto
  have p2: "make_valid_name_loop (Suc (length ext + 0)) ((pre @ base) @ CHR ''.'' # (ext @ post))
              (length pre) (length base) (length base) False ?n1 =
            make_valid_name_loop (length ext + 0) ((pre @ base) @ CHR ''.'' # (ext @ post))
              (length pre) (length base + 1) 8 True ?n1"
    using assms(3) by (intro make_valid_name_loop_dot) auto
  have p3: "make_valid_name_loop (length ext + 0) ((pre @ base @ [CHR ''.'']) @ ext @ post)
              (length pre) (length base + 1) 8 True ?n1 =
            make_valid_name_loop 0 ((pre @ base @ [CHR ''.'']) @ ext @ post)
              (length pre) (length base + 1 + length ext) (8 + length ext) True
              (take 8 ?n1 @ map toupper ext @ drop (8 + length ext) ?n1)"
    using assms(2,3,4) by (intro make_valid_name_loop_copy) auto
  have nm: "take 8 ?n1 @ map toupper ext @ drop (8 + length ext) ?n1 =
            map toupper base @ replicate (8 - length base) (CHR 0x20) @
            map toupper ext @ replicate (3 - length ext) (CHR 0x20)"
    using assms(3,4) by (simp add: min_def)
  have "make_valid_name ?path (of_nat (length pre))
           (of_nat (length pre + length base + 1 + length ext)) =
        make_valid_name_loop (length base + Suc (length ext + 0)) ?path (length pre) 0 0 False ?sp"
    unfolding make_valid_name_def e s by (simp add: add.commute)
  also have "\<dots> = make_valid_name_loop 0 ?path
              (length pre) (length base + 1 + length ext) (8 + length ext) True
              (take 8 ?n1 @ map toupper ext @ drop (8 + length ext) ?n1)"
    using p1 p2 p3 by simp
  finally have "make_valid_name ?path (of_nat (length pre))
           (of_nat (length pre + length base + 1 + length ext)) =
         Inr (0, map toupper base @ replicate (8 - length base) (CHR 0x20) @
                 map toupper ext @ replicate (3 - length ext) (CHR 0x20))"
    by (simp only: nm make_valid_name_loop.simps)
  then show ?thesis using toupper_alphabet by simp
qed

text \<open>
  The tokens "foo.txt", "FOO.TXT" and "Foo.TxT", a token in the middle of a path, and
  the three paths as \<open>pr_get_next_path_part\<close> resolves them.
\<close>

lemma toupper_foo_txt:
  "toupper CHR ''f'' = CHR ''F''" "toupper CHR ''o'' = CHR ''O''" "toupper CHR ''t'' = CHR ''T''"
  "toupper CHR ''x'' = CHR ''X''" "toupper CHR ''F'' = CHR ''F''" "toupper CHR ''O'' = CHR ''O''"
  "toupper CHR ''T'' = CHR ''T''" "toupper CHR ''X'' = CHR ''X''" "toupper CHR ''a'' = CHR ''A''"
  "toupper CHR ''b'' = CHR ''B''"
  by code_simp+

lemma replicate_spaces:
  "replicate 5 (CHR 0x20) = ''     ''" "replicate 7 (CHR 0x20) = ''       ''"
  "replicate 2 (CHR 0x20) = ''  ''"
  by code_simp+

lemma pr_get_next_path_part_foo_txt:
  "pr_get_next_path_part 8 (pr_reset\<lparr>pr_path := Some ''foo.txt''\<rparr>) =
     Inr (0, \<lparr>pr_start = 0, pr_end = 7, pr_path = Some ''foo.txt'', pr_name = ''FOO     TXT''\<rparr>)"
  "pr_get_next_path_part 8 (pr_reset\<lparr>pr_path := Some ''FOO.TXT''\<rparr>) =
     Inr (0, \<lparr>pr_start = 0, pr_end = 7, pr_path = Some ''FOO.TXT'', pr_name = ''FOO     TXT''\<rparr>)"
  "pr_get_next_path_part 8 (pr_reset\<lparr>pr_path := Some ''Foo.TxT''\<rparr>) =
     Inr (0, \<lparr>pr_start = 0, pr_end = 7, pr_path = Some ''Foo.TxT'', pr_name = ''FOO     TXT''\<rparr>)"
  by code_simp+

theorem make_valid_name_canonical_witness:
  "make_valid_name ''foo.txt'' 0 7 = Inr (0, ''FOO     TXT'') \<and>
   make_valid_name ''FOO.TXT'' 0 7 = Inr (0, ''FOO     TXT'') \<and>
   make_valid_name ''Foo.TxT'' 0 7 = Inr (0, ''FOO     TXT'') \<and>
   make_valid_name ''dir/a.b/c'' 4 7 = Inr (0, ''A       B  '') \<and>
   pr_get_next_path_part 8 (pr_reset\<lparr>pr_path := Some ''foo.txt''\<rparr>) =
     Inr (0, \<lparr>pr_start = 0, pr_end = 7, pr_path = Some ''foo.txt'', pr_name = ''FOO     TXT''\<rparr>) \<and>
   pr_get_next_path_part 8 (pr_reset\<lparr>pr_path := Some ''FOO.TXT''\<rparr>) =
     Inr (0, \<lparr>pr_start = 0, pr_end = 7, pr_path = Some ''FOO.TXT'', pr_name = ''FOO     TXT''\<rparr>) \<and>
   pr_get_next_path_part 8 (pr_reset\<lparr>pr_path := Some ''Foo.TxT''\<rparr>) =
     Inr (0, \<lparr>pr_start = 0, pr_end = 7, pr_path = Some ''Foo.TxT'', pr_name = ''FOO     TXT''\<rparr>)"
  using make_valid_name_canonical [of "''foo''" "''txt''" "[]" "[]", THEN conjunct1]
        make_valid_name_canonical [of "''FOO''" "''TXT''" "[]" "[]", THEN conjunct1]
        make_valid_name_canonical [of "''Foo''" "''TxT''" "[]" "[]", THEN conjunct1]
        make_valid_name_canonical [of "''a''" "''b''" "''dir/''" "''/c''", THEN conjunct1]
  by (simp add: toupper_foo_txt replicate_spaces pr_get_next_path_part_foo_txt)

subsection \<open>Seeking and reading\<close>

text \<open>
  C3. \<open>cfs_seek\<close> is to clamp the resulting cursor into the range from 0 to
  \<open>file_size - 1\<close>. On a file of 100 bytes, \<open>cfs_seek(fd, -1, CFS_SEEK_SET)\<close> and
  \<open>cfs_seek(fd, -20, CFS_SEEK_CUR)\<close> from cursor 10 give a negative cursor, which the
  clamp of the claim brings to 0. The code compares the cursor with the unsigned
  \<open>DIR_FileSize\<close> first: as an unsigned value the negative cursor is larger than the size,
  so it is set to \<open>file_size - 1\<close>, and the later test against 0 never sees it. Both
  calls return 99.
\<close>

theorem cfs_seek_negative_cursor:
  "map_sum id fst (cfs_seek 0 (- 1) CFS_SEEK_SET (open_state CFS_READ 0 (demo_file 5 100))) = Inr 99 \<and>
   seek_clamp 100 (- 1) = 0 \<and>
   map_sum id fst (cfs_seek 0 (- 20) CFS_SEEK_CUR (open_state CFS_READ 10 (demo_file 5 100))) = Inr 99 \<and>
   seek_clamp 100 (10 + (- 20)) = 0"
  by code_simp

text \<open>
  C4. \<open>cfs_read\<close> on a descriptor opened without \<open>CFS_READ\<close> is to return -1. The file
  in slot 0 is open for writing only. When it is empty (first cluster 0) the test for
  the empty file comes first and \<open>cfs_read\<close> returns 0; when it has a cluster the flag
  test is reached and -1 is returned. No byte is transferred in either case.
\<close>

theorem cfs_read_write_only_empty_file:
  "fd_flags (fat_fd_pool (open_state CFS_WRITE 0 (demo_file 0 0)) ! 0) AND CFS_READ = 0 \<and>
   map_sum id fst (cfs_read Int16 10 0 (replicate 10 0) 10 (open_state CFS_WRITE 0 (demo_file 0 0)))
     = Inr (0, replicate 10 0) \<and>
   map_sum id fst (cfs_read Int32 10 0 (replicate 10 0) 10 (open_state CFS_WRITE 0 (demo_file 0 0)))
     = Inr (0, replicate 10 0) \<and>
   map_sum id fst (cfs_read Int16 10 0 (replicate 10 0) 10 (open_state CFS_WRITE 0 (demo_file 5 100)))
     = Inr (- 1, replicate 10 0)"
  by code_simp

subsection \<open>Reading a directory\<close>

text \<open>
  C5. \<open>cfs_readdir\<close> is to find entry number k in the cluster with index
  \<open>(k * 32) / (sec_per_clus * 512)\<close> of the directory's chain. The root directory of the
  example volume is the single cluster 2 (sector 2080, one sector per cluster) and holds
  FOO.TXT and BAR.TXT. With the cursor at 0 the first entry is returned. With the cursor
  at 1 the index of the claim is 0 and the entry is at offset 32 of sector 2080; the code
  divides by \<open>BPB_SecPerClus\<close> alone, walks 32 links from cluster 2, past the end of the
  chain, arrives at cluster 0 and returns -1.
\<close>

theorem cfs_readdir_second_entry:
  "map_sum id (\<lambda>((r, d), s). (r, take 7 (dirent_name d), cfs_readdir_offset s))
     (cfs_readdir Int16 root_dirp empty_dirent volume_state) = Inr (0, bytes_of_name ''FOO.TXT'', 1) \<and>
   readdir_cluster_index 1 1 = 0 \<and>
   buf_read (blocks (mounted_device volume_state) (CLUSTER_TO_SECTOR volume_state 2 + (1 * 32) div 512))
     ((1 * 32) mod 512) 11 = bytes_of_name ''BAR     TXT'' \<and>
   map_sum id fst (find_nth_cluster 2 ((1 * 32) div 1) volume_state) = Inr 0 \<and>
   map_sum id (\<lambda>((r, d), s). r)
     (cfs_readdir Int16 root_dirp empty_dirent (volume_state\<lparr>cfs_readdir_offset := 1\<rparr>)) = Inr (- 1) \<and>
   map_sum id (\<lambda>((r, d), s). r)
     (cfs_readdir Int32 root_dirp empty_dirent (volume_state\<lparr>cfs_readdir_offset := 1\<rparr>)) = Inr (- 1)"
  by code_simp

subsection \<open>Freeing a cluster chain\<close>

lemma fat_flush_props:
  assumes "coherent s"
  shows "coherent (fat_flush s)" "view (fat_flush s) = view s" "mounted (fat_flush s) = mounted s"
    "sector_buffer (fat_flush s) = sector_buffer s"
    "sector_buffer_addr (fat_flush s) = sector_buffer_addr s"
    "sector_buffer_dirty (fat_flush s) = 0"
    "fat_file_pool (fat_flush s) = fat_file_pool s" "fat_fd_pool (fat_flush s) = fat_fd_pool s"
  using assms
  by (auto simp: coherent_def reliable_def view_def fat_flush_def mounted_device_def
      diskio_write_block_def Let_def fun_eq_iff)

lemma fat_read_block_props:
  assumes "coherent s" "fat_read_block a s = (r, s')"
  shows "r = 0" "coherent s'" "view s' = view s" "mounted s' = mounted s"
    "sector_buffer s' = view s a" "sector_buffer_addr s' = a"
    "fat_file_pool s' = fat_file_pool s" "fat_fd_pool s' = fat_fd_pool s"
  using assms
  by (auto simp: coherent_def reliable_def view_def fat_flush_def fat_read_block_def mounted_device_def
      diskio_write_block_def diskio_read_block_def DISKIO_SUCCESS_def Let_def fun_eq_iff
      split: if_splits)

lemma dvd_512: "(512 :: nat) dvd 2 ^ 32"
proof -
  have "(2 :: nat) ^ 9 dvd 2 ^ 32" by (rule le_imp_power_dvd) simp
  then show ?thesis by simp
qed

lemma unat_times4_mod512: "unat ((c * 4 :: u32) mod 512) = 4 * (unat c mod 128)"
proof -
  have "unat ((c * 4 :: u32) mod 512) = unat (c * 4) mod 512"
    by (simp add: unat_mod_distrib)
  also have "unat (c * 4) = (unat c * 4) mod 2 ^ 32"
    by (simp add: unat_word_ariths)
  also have "((unat c * 4) mod 2 ^ 32) mod 512 = (unat c * 4) mod 512"
    by (rule mod_mod_cancel) (rule dvd_512)
  also have "\<dots> = 4 * (unat c mod 128)"
    using mult_mod_right[of 4 "unat c" 128] by (simp add: mult.commute)
  finally show ?thesis .
qed

lemma unat_times2_mod512: "unat ((c * 2 :: u32) mod 512) = 2 * (unat c mod 256)"
proof -
  have "unat ((c * 2 :: u32) mod 512) = unat (c * 2) mod 512"
    by (simp add: unat_mod_distrib)
  also have "unat (c * 2) = (unat c * 2) mod 2 ^ 32"
    by (simp add: unat_word_ariths)
  also have "((unat c * 2) mod 2 ^ 32) mod 512 = (unat c * 2) mod 512"
    by (rule mod_mod_cancel) (rule dvd_512)
  also have "\<dots> = 2 * (unat c mod 256)"
    using mult_mod_right[of 2 "unat c" 256] by (simp add: mult.commute)
  finally show ?thesis .
qed

lemma times4_inj: 
  assumes "c < 0x10000000" "c' < 0x10000000" "(c * 4 :: u32) = c' * 4"
  shows "c = c'"
proof -
  have a: "unat c < 2 ^ 28" "unat c' < 2 ^ 28" using assms(1,2) by (simp_all add: word_less_nat_alt)
  then have "unat c * 4 < 2 ^ 32" "unat c' * 4 < 2 ^ 32" by simp_all
  then have "unat (c * 4) = unat c * 4" "unat (c' * 4) = unat c' * 4"
    by (simp_all add: unat_word_ariths)
  with assms(3) have "unat c = unat c'" by simp
  then show ?thesis by (simp only: word_unat_eq_iff)
qed

lemma times2_inj: 
  assumes "c < 0x10000000" "c' < 0x10000000" "(c * 2 :: u32) = c' * 2"
  shows "c = c'"
proof -
  have a: "unat c < 2 ^ 28" "unat c' < 2 ^ 28" using assms(1,2) by (simp_all add: word_less_nat_alt)
  then have "unat c * 2 < 2 ^ 32" "unat c' * 2 < 2 ^ 32" by simp_all
  then have "unat (c * 2) = unat c * 2" "unat (c' * 2) = unat c' * 2"
    by (simp_all add: unat_word_ariths)
  with assms(3) have "unat c = unat c'" by simp
  then show ?thesis by (simp only: word_unat_eq_iff)
qed

lemma div_mod_inj: "(w :: u32) div 512 = w' div 512 \<Longrightarrow> w mod 512 = w' mod 512 \<Longrightarrow> w = w'"
  by (metis div_mult_mod_eq)

lemma fat_loc_32:
  assumes "fat_volume s" "fs_type (fs_info (mounted s)) = FAT32"
  shows "calc_fat_block s c 0 = Inr (fat_sector s c, (c * 4) mod 512)"
    "fat_sector s c = ucast (BPB_RsvdSecCnt (fs_info (mounted s))) + (c * 4) div 512"
    "fat_offset s c = 4 * (unat c mod 128)"
  using assms
  by (simp_all add: fat_volume_def calc_fat_block_def fat_sector_def fat_offset_def Let_def
      unat_times4_mod512)

lemma fat_loc_16:
  assumes "fat_volume s" "fs_type (fs_info (mounted s)) = FAT16"
  shows "calc_fat_block s c 0 = Inr (fat_sector s c, (c * 2) mod 512)"
    "fat_sector s c = ucast (BPB_RsvdSecCnt (fs_info (mounted s))) + (c * 2) div 512"
    "fat_offset s c = 2 * (unat c mod 256)"
  using assms
  by (simp_all add: fat_volume_def calc_fat_block_def fat_sector_def fat_offset_def Let_def
      unat_times2_mod512)

lemma fat_loc_inj:
  assumes v: "fat_volume s" and c: "c < 0x10000000" "c' < 0x10000000"
    and sec: "fat_sector s c = fat_sector s c'" and off: "fat_offset s c = fat_offset s c'"
  shows "c = c'"
proof -
  consider "fs_type (fs_info (mounted s)) = FAT32" | "fs_type (fs_info (mounted s)) = FAT16"
    using v by (auto simp: fat_volume_def)
  then show ?thesis
  proof cases
    case 1
    have "(c * 4) div 512 = (c' * 4) div 512"
      using sec by (simp add: fat_loc_32(2)[OF v 1])
    moreover have "unat ((c * 4) mod 512) = unat ((c' * 4) mod 512)"
      using off by (simp add: fat_loc_32(3)[OF v 1] unat_times4_mod512)
    then have "(c * 4) mod 512 = (c' * 4) mod 512" by (simp only: word_unat_eq_iff)
    ultimately have "c * 4 = c' * 4" by (rule div_mod_inj)
    with c show ?thesis by (rule times4_inj)
  next
    case 2
    have "(c * 2) div 512 = (c' * 2) div 512"
      using sec by (simp add: fat_loc_16(2)[OF v 2])
    moreover have "unat ((c * 2) mod 512) = unat ((c' * 2) mod 512)"
      using off by (simp add: fat_loc_16(3)[OF v 2] unat_times2_mod512)
    then have "(c * 2) mod 512 = (c' * 2) mod 512" by (simp only: word_unat_eq_iff)
    ultimately have "c * 2 = c' * 2" by (rule div_mod_inj)
    with c show ?thesis by (rule times2_inj)
  qed
qed

lemma unchanged_refl: "coherent s \<Longrightarrow> unchanged s s"
  by (simp add: unchanged_def)

lemma unchanged_trans: "unchanged s s1 \<Longrightarrow> unchanged s1 s2 \<Longrightarrow> unchanged s s2"
  by (simp add: unchanged_def)

lemma unchanged_facts:
  assumes "unchanged s s'"
  shows "coherent s'" "view s' = view s" "mounted s' = mounted s"
    "fat_volume s' = fat_volume s" "fat_get s' = fat_get s" "fat_sector s' = fat_sector s"
    "fat_offset s' = fat_offset s" "is_EOC s' = is_EOC s" "valid_cluster s' = valid_cluster s"
    "chain_end s' = chain_end s" "dir_entry_on_volume s' = dir_entry_on_volume s"
  using assms
  by (auto simp: unchanged_def fat_volume_def fat_get_def fat_sector_def fat_offset_def
      calc_fat_block_def is_EOC_def valid_cluster_def chain_end_def dir_entry_on_volume_def
      fun_eq_iff Let_def)

lemma fat_flush_unchanged: "coherent s \<Longrightarrow> unchanged s (fat_flush s)"
  by (simp add: unchanged_def fat_flush_props)

lemma fat_read_block_unchanged:
  "coherent s \<Longrightarrow> fat_read_block a s = (r, s') \<Longrightarrow> unchanged s s'"
  by (simp add: unchanged_def fat_read_block_props)

lemma read_fat_entry_unchanged:
  assumes "coherent s" "read_fat_entry c s = Inr (v, s')"
  shows "unchanged s s'"
proof -
  from assms(2) obtain sec off where "calc_fat_block s c 0 = Inr (sec, off)"
    and r: "(let (r, s1) = fat_read_block sec s; buf = sector_buffer s1; i = unat off
       in if fs_type (fs_info (mounted s1)) = FAT16 then
            (if i + 1 < 512
             then Inr (push_bit 8 (ucast (buf ! (i + 1))) + ucast (buf ! i), s1)
             else Inl BufferOverrun)
          else if fs_type (fs_info (mounted s1)) = FAT32 then
            (if i + 3 < 512
             then Inr ((push_bit 24 (ucast (buf ! (i + 3))) + push_bit 16 (ucast (buf ! (i + 2))) +
                        push_bit 8 (ucast (buf ! (i + 1))) + ucast (buf ! i)) AND 0x0FFFFFFF, s1)
             else Inl BufferOverrun)
          else Inr (EOC, s1)) = Inr (v, s')"
    unfolding read_fat_entry_def thn_Inr_iff by auto
  obtain r0 s1 where rb: "fat_read_block sec s = (r0, s1)" by (cases "fat_read_block sec s")
  from r have "s' = s1" by (auto simp: rb Let_def split: if_splits)
  with rb assms(1) show ?thesis by (simp add: fat_read_block_unchanged)
qed

lemma read_fat_entry_value:
  assumes "coherent s" "fat_volume s"
  shows "\<exists>s'. read_fat_entry c s = Inr (fat_get s c, s') \<and> unchanged s s'"
proof -
  obtain r0 s1 where rb: "fat_read_block (fat_sector s c) s = (r0, s1)"
    by (cases "fat_read_block (fat_sector s c) s")
  note p = fat_read_block_props[OF assms(1) rb]
  consider "fs_type (fs_info (mounted s)) = FAT32" | "fs_type (fs_info (mounted s)) = FAT16"
    using assms(2) by (auto simp: fat_volume_def)
  then have "read_fat_entry c s = Inr (fat_get s c, s1)"
  proof cases
    case 1
    have "unat c mod 128 < 128" by simp
    then have "4 * (unat c mod 128) + 3 < 512" by linarith
    then show ?thesis
      using 1 p by (simp add: read_fat_entry_def fat_loc_32(1,3)[OF assms(2) 1] rb fat_get_def
          unat_times4_mod512 Let_def)
  next
    case 2
    have "unat c mod 256 < 256" by simp
    then have "2 * (unat c mod 256) + 1 < 512" by linarith
    then show ?thesis
      using 2 p by (simp add: read_fat_entry_def fat_loc_16(1,3)[OF assms(2) 2] rb fat_get_def
          unat_times2_mod512 Let_def)
  qed
  with rb assms(1) show ?thesis by (auto simp: fat_read_block_unchanged)
qed

lemma coherent_length_view: "coherent s \<Longrightarrow> length (view s a) = 512"
  by (simp add: coherent_def view_def)

text \<open>What \<open>write_fat_entry\<close> leaves in the sector of the entry.\<close>

lemma write_fat_entry_state:
  assumes co: "coherent s" and v: "fat_volume s"
  shows "\<exists>s'. write_fat_entry c val s = Inr s' \<and> coherent s' \<and> mounted s' = mounted s \<and>
           sector_buffer_addr s' = fat_sector s c \<and> sector_buffer_dirty s' = 1 \<and>
           (\<forall>a. a \<noteq> fat_sector s c \<longrightarrow> view s' a = view s a) \<and>
           view s' (fat_sector s c) =
             (if fs_type (fs_info (mounted s)) = FAT32
              then (view s (fat_sector s c))
                     [fat_offset s c + 3 := ucast (drop_bit 24 val),
                      fat_offset s c + 2 := ucast (drop_bit 16 val),
                      fat_offset s c + 1 := ucast (drop_bit 8 val),
                      fat_offset s c := ucast val]
              else (view s (fat_sector s c))
                     [fat_offset s c + 1 := ucast (drop_bit 8 val),
                      fat_offset s c := ucast val])"
proof -
  obtain r0 s1 where rb: "fat_read_block (fat_sector s c) s = (r0, s1)"
    by (cases "fat_read_block (fat_sector s c) s")
  note p = fat_read_block_props[OF co rb]
  have len: "length (view s (fat_sector s c)) = 512" by (rule coherent_length_view[OF co])
  have other: "view s1 a = blocks (mounted_device s1) a" if "a \<noteq> fat_sector s c" for a
    using that p(6) by (simp add: view_def)
  consider "fs_type (fs_info (mounted s)) = FAT32" | "fs_type (fs_info (mounted s)) = FAT16"
    using v by (auto simp: fat_volume_def)
  then show ?thesis
  proof cases
    case 1
    have "unat c mod 128 < 128" by simp
    then have b: "4 * (unat c mod 128) + 3 < 512" by linarith
    have w: "write_fat_entry c val s =
        Inr (s1\<lparr>sector_buffer := (sector_buffer s1)
                     [fat_offset s c + 3 := ucast (drop_bit 24 val),
                      fat_offset s c + 2 := ucast (drop_bit 16 val),
                      fat_offset s c + 1 := ucast (drop_bit 8 val),
                      fat_offset s c := ucast val],
                 sector_buffer_dirty := 1\<rparr>)"
      using 1 b p(4) by (simp add: write_fat_entry_def fat_loc_32(1,3)[OF v 1] rb
          unat_times4_mod512 Let_def top_byte)
    show ?thesis
      using 1 p len other unfolding w
      by (auto simp: coherent_def view_def mounted_device_def)
  next
    case 2
    have "unat c mod 256 < 256" by simp
    then have b: "2 * (unat c mod 256) + 1 < 512" by linarith
    have w: "write_fat_entry c val s =
        Inr (s1\<lparr>sector_buffer := (sector_buffer s1)
                     [fat_offset s c + 1 := ucast (drop_bit 8 val),
                      fat_offset s c := ucast val],
                 sector_buffer_dirty := 1\<rparr>)"
      using 2 b p(4) by (simp add: write_fat_entry_def fat_loc_16(1,3)[OF v 2] rb
          unat_times2_mod512 Let_def)
    show ?thesis
      using 2 p len other unfolding w
      by (auto simp: coherent_def view_def mounted_device_def)
  qed
qed

lemma mounted_eq_facts:
  assumes "mounted s' = mounted s"
  shows "fat_volume s' = fat_volume s" "fat_sector s' = fat_sector s"
    "fat_offset s' = fat_offset s" "is_EOC s' = is_EOC s" "valid_cluster s' = valid_cluster s"
    "chain_end s' = chain_end s"
  using assms
  by (auto simp: fat_volume_def fat_sector_def fat_offset_def
      calc_fat_block_def is_EOC_def valid_cluster_def chain_end_def fun_eq_iff Let_def)

lemma write_fat_entry_zero:
  assumes co: "coherent s" and v: "fat_volume s" and c: "c < 0x10000000"
  shows "\<exists>s'. write_fat_entry c 0 s = Inr s' \<and> coherent s' \<and> mounted s' = mounted s \<and>
           sector_buffer_addr s' = fat_sector s c \<and> sector_buffer_dirty s' = 1 \<and>
           fat_get s' c = 0 \<and>
           (\<forall>c'. c' < 0x10000000 \<and> c' \<noteq> c \<longrightarrow> fat_get s' c' = fat_get s c') \<and>
           (\<forall>a. a \<noteq> fat_sector s c \<longrightarrow> view s' a = view s a)"
proof -
  from write_fat_entry_state[OF co v, of c 0] obtain s' where
    w: "write_fat_entry c 0 s = Inr s'" and co': "coherent s'" and m: "mounted s' = mounted s"
    and addr: "sector_buffer_addr s' = fat_sector s c" "sector_buffer_dirty s' = 1"
    and fr: "\<forall>a. a \<noteq> fat_sector s c \<longrightarrow> view s' a = view s a"
    and up: "view s' (fat_sector s c) =
             (if fs_type (fs_info (mounted s)) = FAT32
              then (view s (fat_sector s c))
                     [fat_offset s c + 3 := 0, fat_offset s c + 2 := 0,
                      fat_offset s c + 1 := 0, fat_offset s c := 0]
              else (view s (fat_sector s c))
                     [fat_offset s c + 1 := 0, fat_offset s c := 0])"
    by auto
  note me = mounted_eq_facts[OF m]
  have len: "length (view s (fat_sector s c)) = 512" by (rule coherent_length_view[OF co])
  consider (32) "fs_type (fs_info (mounted s)) = FAT32" | (16) "fs_type (fs_info (mounted s)) = FAT16"
    using v by (auto simp: fat_volume_def)
  then have same: "fat_get s' c = 0"
  proof cases
    case 32
    have "unat c mod 128 < 128" by simp
    then have "fat_offset s c + 3 < 512" by (simp add: fat_loc_32(3)[OF v 32])
    then show ?thesis using 32 len by (simp add: fat_get_def me m up Let_def)
  next
    case 16
    have "unat c mod 256 < 256" by simp
    then have "fat_offset s c + 1 < 512" by (simp add: fat_loc_16(3)[OF v 16])
    then show ?thesis using 16 len by (simp add: fat_get_def me m up Let_def)
  qed
  have other: "fat_get s' c' = fat_get s c'" if c': "c' < 0x10000000" "c' \<noteq> c" for c'
  proof (cases "fat_sector s c' = fat_sector s c")
    case False
    then show ?thesis using fr by (simp add: fat_get_def me m Let_def)
  next
    case True
    with fat_loc_inj[OF v c' (1) c] c'(2) have ne: "fat_offset s c' \<noteq> fat_offset s c" by auto
    from v show ?thesis unfolding fat_volume_def
    proof (elim conjE disjE)
      assume 16: "fs_type (fs_info (mounted s)) = FAT16"
      from ne have "unat c' mod 256 \<noteq> unat c mod 256" by (simp add: fat_loc_16(3)[OF v 16])
      then have "fat_offset s c + 2 \<le> fat_offset s c' \<or> fat_offset s c' + 2 \<le> fat_offset s c"
        unfolding fat_loc_16(3)[OF v 16] by linarith
      then show ?thesis using 16 True by (auto simp: fat_get_def me m up Let_def)
    next
      assume 32: "fs_type (fs_info (mounted s)) = FAT32"
      from ne have "unat c' mod 128 \<noteq> unat c mod 128" by (simp add: fat_loc_32(3)[OF v 32])
      then have "fat_offset s c + 4 \<le> fat_offset s c' \<or> fat_offset s c' + 4 \<le> fat_offset s c"
        unfolding fat_loc_32(3)[OF v 32] by linarith
      then show ?thesis using 32 True by (auto simp: fat_get_def me m up Let_def)
    qed
  qed
  from w co' m addr same other fr show ?thesis by blast
qed

lemma chain_cong: "(\<forall>y\<in>set cs. g y = g' y) \<Longrightarrow> chain g c cs e = chain g' c cs e"
  by (induction cs arbitrary: c) auto

lemma chain_end_stops: "chain_end s e \<Longrightarrow> \<not> (\<not> is_EOC s e \<and> e \<ge> 2)"
  by (auto simp: chain_end_def)

lemma valid_cluster_goes: "valid_cluster s x \<Longrightarrow> \<not> is_EOC s x \<and> x \<ge> 2 \<and> x < 0x10000000"
  by (auto simp: valid_cluster_def)

lemma valid_not_end: "valid_cluster s x \<Longrightarrow> chain_end s e \<Longrightarrow> x \<noteq> e"
  by (auto simp: valid_cluster_def chain_end_def)

lemma reset_loop_chain:
  assumes "coherent s" "fat_volume s" "chain (fat_get s) c cs e" "distinct cs"
    "\<forall>x\<in>set cs. valid_cluster s x" "chain_end s e" "length cs < fuel" "nxt = fat_get s c"
  shows "\<exists>s'. reset_loop fuel c nxt s = Inr (e, s') \<and> coherent s' \<and> mounted s' = mounted s \<and>
           (\<forall>x\<in>set cs. fat_get s' x = 0) \<and>
           (\<forall>y. y < 0x10000000 \<and> y \<notin> set cs \<longrightarrow> fat_get s' y = fat_get s y) \<and>
           (\<forall>a. a \<notin> fat_sector s ` set cs \<longrightarrow> view s' a = view s a)"
  using assms
proof (induction cs arbitrary: s c nxt fuel)
  case Nil
  then obtain k where k: "fuel = Suc k" by (cases fuel) auto
  from Nil have "c = e" by simp
  with Nil chain_end_stops[of s e] show ?case by (auto simp: k)
next
  case (Cons x xs)
  then obtain k where k: "fuel = Suc k" and lk: "length xs < k" by (cases fuel) auto
  from Cons.prems have cx: "c = x" and ch: "chain (fat_get s) (fat_get s x) xs e" by simp_all
  from Cons.prems have vx: "valid_cluster s x" by simp
  note gx = valid_cluster_goes[OF vx]
  from write_fat_entry_zero[OF Cons.prems(1,2), of x] gx obtain s1 where
    w: "write_fat_entry x 0 s = Inr s1" and co1: "coherent s1" and m1: "mounted s1 = mounted s"
    and z1: "fat_get s1 x = 0"
    and o1: "\<forall>c'. c' < 0x10000000 \<and> c' \<noteq> x \<longrightarrow> fat_get s1 c' = fat_get s c'"
    and f1: "\<forall>a. a \<noteq> fat_sector s x \<longrightarrow> view s1 a = view s a"
    by blast
  note me1 = mounted_eq_facts[OF m1]
  have v1: "fat_volume s1" using Cons.prems(2) by (simp add: me1)
  from read_fat_entry_value[OF co1 v1, of nxt] obtain s2 where
    r: "read_fat_entry nxt s1 = Inr (fat_get s1 nxt, s2)" and u2: "unchanged s1 s2" by blast
  note uf = unchanged_facts[OF u2]
  have nx: "nxt = fat_get s x" using Cons.prems(8) cx by simp
  have xs_same: "\<forall>y\<in>set xs. fat_get s2 y = fat_get s y"
  proof
    fix y assume y: "y \<in> set xs"
    with Cons.prems(4) have "y \<noteq> x" by auto
    moreover from y Cons.prems(5) have "y < 0x10000000" by (auto dest: valid_cluster_goes)
    ultimately show "fat_get s2 y = fat_get s y" using o1 by (simp add: uf)
  qed
  have ch2: "chain (fat_get s2) nxt xs e"
    using ch chain_cong[OF xs_same, of "fat_get s x" e] by (simp add: nx)
  have val2: "\<forall>y\<in>set xs. valid_cluster s2 y"
    using Cons.prems(5) by (simp add: uf me1)
  have ce2: "chain_end s2 e" using Cons.prems(6) by (simp add: uf me1)
  have d2: "distinct xs" using Cons.prems(4) by simp
  have v2: "fat_volume s2" using v1 by (simp add: uf)
  from Cons.IH[OF uf(1) v2 ch2 d2 val2 ce2 lk, of "fat_get s1 nxt"] obtain s' where
    l: "reset_loop k nxt (fat_get s1 nxt) s2 = Inr (e, s')" and co': "coherent s'"
    and m': "mounted s' = mounted s2"
    and z': "\<forall>y\<in>set xs. fat_get s' y = 0"
    and o': "\<forall>y. y < 0x10000000 \<and> y \<notin> set xs \<longrightarrow> fat_get s' y = fat_get s2 y"
    and f': "\<forall>a. a \<notin> fat_sector s2 ` set xs \<longrightarrow> view s' a = view s2 a"
    by (auto simp: uf)
  have "reset_loop fuel c nxt s = Inr (e, s')"
    using gx by (simp add: k cx w r l)
  moreover have "mounted s' = mounted s" by (simp add: m' uf m1)
  moreover have "\<forall>y\<in>set (x # xs). fat_get s' y = 0"
  proof -
    have "x \<notin> set xs" using Cons.prems(4) by simp
    then have "fat_get s' x = 0" using o' gx z1 by (simp add: uf)
    with z' show ?thesis by simp
  qed
  moreover have "\<forall>y. y < 0x10000000 \<and> y \<notin> set (x # xs) \<longrightarrow> fat_get s' y = fat_get s y"
    using o' o1 by (auto simp: uf)
  moreover have "\<forall>a. a \<notin> fat_sector s ` set (x # xs) \<longrightarrow> view s' a = view s a"
    using f' f1 by (auto simp: uf me1)
  ultimately show ?case using co' by blast
qed

lemma reset_loop_stops:
  "reset_loop fuel c nxt s = Inr (c', s') \<Longrightarrow> is_EOC s' c' \<or> c' < 2"
proof (induction fuel arbitrary: c nxt s)
  case 0
  then show ?case by simp
next
  case (Suc k)
  show ?case
  proof (cases "\<not> is_EOC s c \<and> c \<ge> 2")
    case True
    with Suc.prems obtain s1 nn s2 where "reset_loop k nxt nn s2 = Inr (c', s')"
      by (auto simp: thn_Inr_iff)
    then show ?thesis by (rule Suc.IH)
  next
    case False
    with Suc.prems have "c' = c" "s' = s" by simp_all
    with False show ?thesis by (auto simp: not_le)
  qed
qed

lemma reset_cluster_chain_walk:
  assumes "coherent s" "fat_volume s" "chain (fat_get s) (first_cluster_of de) cs e" "distinct cs"
    "\<forall>x\<in>set cs. valid_cluster s x" "chain_end s e" "length cs < fuel"
  shows "\<exists>s1 s2 s'. read_fat_entry (first_cluster_of de) s = Inr (fat_get s (first_cluster_of de), s1) \<and>
           reset_loop fuel (first_cluster_of de) (fat_get s (first_cluster_of de)) s1 = Inr (e, s2) \<and>
           write_fat_entry e 0 s2 = Inr s' \<and>
           reset_cluster_chain fuel de s = Inr s' \<and> coherent s' \<and> mounted s' = mounted s \<and>
           sector_buffer_addr s' = fat_sector s e \<and> sector_buffer_dirty s' = 1 \<and>
           fat_get s' e = 0 \<and> (\<forall>x\<in>set cs. fat_get s' x = 0) \<and>
           (\<forall>a. a \<notin> fat_sector s ` (set cs \<union> {e}) \<longrightarrow> view s' a = view s a)"
proof -
  let ?c = "first_cluster_of de"
  from read_fat_entry_value[OF assms(1,2), of ?c] obtain s1 where
    r: "read_fat_entry ?c s = Inr (fat_get s ?c, s1)" and u1: "unchanged s s1" by blast
  note uf = unchanged_facts[OF u1]
  have "\<exists>s2. reset_loop fuel ?c (fat_get s ?c) s1 = Inr (e, s2) \<and> coherent s2 \<and>
           mounted s2 = mounted s1 \<and> (\<forall>x\<in>set cs. fat_get s2 x = 0) \<and>
           (\<forall>y. y < 0x10000000 \<and> y \<notin> set cs \<longrightarrow> fat_get s2 y = fat_get s1 y) \<and>
           (\<forall>a. a \<notin> fat_sector s1 ` set cs \<longrightarrow> view s2 a = view s1 a)"
    using assms by (intro reset_loop_chain) (simp_all add: uf)
  then obtain s2 where l: "reset_loop fuel ?c (fat_get s ?c) s1 = Inr (e, s2)"
    and co2: "coherent s2" and m2: "mounted s2 = mounted s1"
    and z2: "\<forall>x\<in>set cs. fat_get s2 x = 0"
    and f2: "\<forall>a. a \<notin> fat_sector s1 ` set cs \<longrightarrow> view s2 a = view s1 a"
    by blast
  note me2 = mounted_eq_facts[OF m2]
  have v2: "fat_volume s2" using assms(2) by (simp add: me2 uf)
  have e28: "e < 0x10000000" using assms(6) by (simp add: chain_end_def)
  from write_fat_entry_zero[OF co2 v2 e28] obtain s' where
    w: "write_fat_entry e 0 s2 = Inr s'" and co': "coherent s'" and m': "mounted s' = mounted s2"
    and a': "sector_buffer_addr s' = fat_sector s2 e" "sector_buffer_dirty s' = 1"
    and z': "fat_get s' e = 0"
    and o': "\<forall>c'. c' < 0x10000000 \<and> c' \<noteq> e \<longrightarrow> fat_get s' c' = fat_get s2 c'"
    and f': "\<forall>a. a \<noteq> fat_sector s2 e \<longrightarrow> view s' a = view s2 a"
    by blast
  have "reset_cluster_chain fuel de s = Inr s'"
    by (simp add: reset_cluster_chain_def Let_def r l w)
  moreover have "\<forall>x\<in>set cs. fat_get s' x = 0"
  proof
    fix x assume x: "x \<in> set cs"
    with assms(5) have vx: "valid_cluster s x" by simp
    from valid_not_end[OF vx assms(6)] valid_cluster_goes[OF vx] o' z2 x
    show "fat_get s' x = 0" by simp
  qed
  moreover have "\<forall>a. a \<notin> fat_sector s ` (set cs \<union> {e}) \<longrightarrow> view s' a = view s a"
    using f' f2 by (auto simp: me2 uf)
  moreover have "mounted s' = mounted s" by (simp add: m' m2 uf)
  moreover have "sector_buffer_addr s' = fat_sector s e" using a'(1) by (simp add: me2 uf)
  ultimately show ?thesis using r l w co' a'(2) z' by blast
qed

text \<open>
  C10. After its loop \<open>reset_cluster_chain\<close> always issues one more \<open>write_fat_entry\<close>,
  with the value at which the walk stopped as cluster number: whenever it returns, its
  last step is \<open>write_fat_entry c 0\<close> for the \<open>c\<close> the loop ended with, an end-of-chain
  mark or a value below 2, never a cluster the loop accepts. For a file whose first
  cluster is 0 that step writes 0 into the reserved FAT entry 0. For a file with the
  chain \<open>cs\<close> that ends in \<open>e\<close>, on a coherent FAT16 or FAT32 volume, the step writes 0
  into the FAT entry whose index is \<open>e\<close> itself, which is no cluster of the chain: the
  sector buffer then holds the sector of that entry and is dirty.
\<close>

theorem reset_cluster_chain_extra_write:
  "(reset_cluster_chain fuel de s = Inr s' \<longrightarrow>
      (\<exists>nxt s1 c s2. read_fat_entry (first_cluster_of de) s = Inr (nxt, s1) \<and>
         reset_loop fuel (first_cluster_of de) nxt s1 = Inr (c, s2) \<and>
         write_fat_entry c 0 s2 = Inr s' \<and> (is_EOC s2 c \<or> c < 2))) \<and>
   (first_cluster_of de = 0 \<and> 0 < fuel \<longrightarrow>
      reset_cluster_chain fuel de s = thn (read_fat_entry 0 s) (\<lambda>(nxt, s1). write_fat_entry 0 0 s1)) \<and>
   (coherent s \<and> fat_volume s \<and> chain (fat_get s) (first_cluster_of de) cs e \<and> distinct cs \<and>
    (\<forall>x\<in>set cs. valid_cluster s x) \<and> chain_end s e \<and> length cs < fuel \<longrightarrow>
      (\<exists>s1 s2 s3. read_fat_entry (first_cluster_of de) s = Inr (fat_get s (first_cluster_of de), s1) \<and>
         reset_loop fuel (first_cluster_of de) (fat_get s (first_cluster_of de)) s1 = Inr (e, s2) \<and>
         write_fat_entry e 0 s2 = Inr s3 \<and> reset_cluster_chain fuel de s = Inr s3 \<and>
         e \<notin> set cs \<and> sector_buffer_addr s3 = fat_sector s e \<and> sector_buffer_dirty s3 = 1 \<and>
         fat_get s3 e = 0))"
proof (intro conjI impI)
  assume a: "reset_cluster_chain fuel de s = Inr s'"
  then obtain nxt s1 where r: "read_fat_entry (first_cluster_of de) s = Inr (nxt, s1)"
    and rest: "thn (reset_loop fuel (first_cluster_of de) nxt s1) (\<lambda>(cluster', s2). write_fat_entry cluster' 0 s2) = Inr s'"
    by (auto simp: reset_cluster_chain_def Let_def thn_Inr_iff)
  then obtain c s2 where l: "reset_loop fuel (first_cluster_of de) nxt s1 = Inr (c, s2)"
    and w: "write_fat_entry c 0 s2 = Inr s'"
    by (auto simp: thn_Inr_iff)
  from reset_loop_stops[OF l] r l w
  show "\<exists>nxt s1 c s2. read_fat_entry (first_cluster_of de) s = Inr (nxt, s1) \<and>
         reset_loop fuel (first_cluster_of de) nxt s1 = Inr (c, s2) \<and>
         write_fat_entry c 0 s2 = Inr s' \<and> (is_EOC s2 c \<or> c < 2)"
    by blast
next
  assume a: "first_cluster_of de = 0 \<and> 0 < fuel"
  then obtain k where k: "fuel = Suc k" by (cases fuel) auto
  show "reset_cluster_chain fuel de s = thn (read_fat_entry 0 s) (\<lambda>(nxt, s1). write_fat_entry 0 0 s1)"
    using a by (cases "read_fat_entry 0 s") (auto simp: reset_cluster_chain_def Let_def k)
next
  assume a: "coherent s \<and> fat_volume s \<and> chain (fat_get s) (first_cluster_of de) cs e \<and> distinct cs \<and>
    (\<forall>x\<in>set cs. valid_cluster s x) \<and> chain_end s e \<and> length cs < fuel"
  then have "e \<notin> set cs" using valid_not_end by blast
  with a reset_cluster_chain_walk[of s de cs e fuel]
  show "\<exists>s1 s2 s3. read_fat_entry (first_cluster_of de) s = Inr (fat_get s (first_cluster_of de), s1) \<and>
         reset_loop fuel (first_cluster_of de) (fat_get s (first_cluster_of de)) s1 = Inr (e, s2) \<and>
         write_fat_entry e 0 s2 = Inr s3 \<and> reset_cluster_chain fuel de s = Inr s3 \<and>
         e \<notin> set cs \<and> sector_buffer_addr s3 = fat_sector s e \<and> sector_buffer_dirty s3 = 1 \<and>
         fat_get s3 e = 0"
    by blast
qed

lemma length_demo_sectors: "length demo_fat_sector = 512" "length demo_dir_sector = 512"
  by (simp_all add: demo_fat_sector_def demo_dir_sector_def buf_write_def bytes_of_dir_entry_def
      bytes16_def bytes32_def bytes_of_name_def)

lemma coherent_volume_state: "coherent volume_state"
  by (simp add: coherent_def volume_state_def demo_state_def demo_device_def mounted_device_def
      reliable_def DISKIO_SUCCESS_def length_demo_sectors)

lemma fat_volume_volume_state: "fat_volume volume_state"
  by (simp add: fat_volume_def volume_state_def demo_state_def demo_info_def)

lemma foo_chain:
  "first_cluster_of foo_entry = 5"
  "fat_get volume_state 5 = 6" "fat_get volume_state 6 = 0x0FFFFFFF"
  "valid_cluster volume_state 5" "valid_cluster volume_state 6"
  "chain_end volume_state 0x0FFFFFFF"
  "fat_sector volume_state 0x0FFFFFFF = 0x20001F"
  "first_cluster_of bar_entry = 0"
  by code_simp+

theorem reset_cluster_chain_extra_write_witness:
  "(\<exists>s'. reset_cluster_chain 3 foo_entry volume_state = Inr s' \<and>
         sector_buffer_addr s' = 0x20001F \<and> sector_buffer_dirty s' = 1 \<and>
         fat_get s' 0x0FFFFFFF = 0) \<and>
   first_cluster_of bar_entry = 0 \<and>
   reset_cluster_chain 3 bar_entry volume_state =
     thn (read_fat_entry 0 volume_state) (\<lambda>(nxt, s1). write_fat_entry 0 0 s1)"
proof -
  have h: "coherent volume_state \<and> fat_volume volume_state \<and>
      chain (fat_get volume_state) (first_cluster_of foo_entry) [5, 6] 0x0FFFFFFF \<and> distinct [5, 6 :: u32] \<and>
      (\<forall>x\<in>set [5, 6]. valid_cluster volume_state x) \<and> chain_end volume_state 0x0FFFFFFF \<and>
      length [5, 6 :: u32] < 3"
    by (simp add: coherent_volume_state fat_volume_volume_state foo_chain)
  have "\<exists>s'. reset_cluster_chain 3 foo_entry volume_state = Inr s' \<and>
         sector_buffer_addr s' = 0x20001F \<and> sector_buffer_dirty s' = 1 \<and>
         fat_get s' 0x0FFFFFFF = 0"
    using reset_cluster_chain_extra_write [of 3 foo_entry volume_state _ "[5, 6]" "0x0FFFFFFF"] h
    by (auto simp: foo_chain)
  moreover have "reset_cluster_chain 3 bar_entry volume_state =
     thn (read_fat_entry 0 volume_state) (\<lambda>(nxt, s1). write_fat_entry 0 0 s1)"
    using reset_cluster_chain_extra_write [of 3 bar_entry volume_state] by (simp add: foo_chain)
  ultimately show ?thesis by (simp add: foo_chain)
qed

lemma fat_next_block_unchanged:
  assumes "coherent s" "fat_next_block s = Inr (r, s')"
  shows "unchanged s s'"
proof -
  let ?s1 = "fat_flush s"
  have u1: "unchanged s ?s1" by (rule fat_flush_unchanged[OF assms(1)])
  note uf1 = unchanged_facts[OF u1]
  show ?thesis
  proof (cases "(sector_buffer_addr ?s1 + 1) mod ucast (BPB_SecPerClus (fs_info (mounted ?s1))) = 0")
    case False
    with assms(2) have "fat_read_block (sector_buffer_addr ?s1 + 1) ?s1 = (r, s')"
      by (auto simp: fat_next_block_def Let_def split: if_splits)
    from fat_read_block_unchanged[OF uf1(1) this] u1 show ?thesis by (rule unchanged_trans[rotated])
  next
    case True
    with assms(2) obtain c entry s2 where
      rd: "read_fat_entry c ?s1 = Inr (entry, s2)"
      and fin: "(if is_EOC s2 entry then Inr (128, s2)
                 else Inr (fat_read_block (CLUSTER_TO_SECTOR s2 entry) s2)) = Inr (r, s')"
      by (auto simp: fat_next_block_def Let_def thn_Inr_iff split: if_splits)
    have u2: "unchanged ?s1 s2" by (rule read_fat_entry_unchanged[OF uf1(1) rd])
    have u02: "unchanged s s2" by (rule unchanged_trans[OF u1 u2])
    show ?thesis
    proof (cases "is_EOC s2 entry")
      case True
      with fin have "s' = s2" by simp
      with u02 show ?thesis by simp
    next
      case False
      with fin have "fat_read_block (CLUSTER_TO_SECTOR s2 entry) s2 = (r, s')" by simp
      from fat_read_block_unchanged[OF unchanged_facts(1)[OF u02] this] u02
      show ?thesis by (rule unchanged_trans[rotated])
    qed
  qed
qed

lemma lookup_unchanged:
  "coherent s \<Longrightarrow> lookup fuel name out s = Inr (res, s') \<Longrightarrow> unchanged s s'"
proof (induction fuel arbitrary: s)
  case 0
  then show ?case by simp
next
  case (Suc k)
  show ?case
  proof (cases "lookup_slots 16 0 (bytes_of_name name) (sector_buffer s)")
    case (Some p)
    with Suc.prems have "s' = s" by (cases p) (auto split: if_splits)
    with Suc.prems(1) show ?thesis by (simp add: unchanged_refl)
  next
    case None
    with Suc.prems obtain r s1 where nb: "fat_next_block s = Inr (r, s1)"
      and fin: "(if r \<noteq> 0 then Inr ((2, out), s1) else lookup k name out s1) = Inr (res, s')"
      by (auto simp: thn_Inr_iff)
    have u1: "unchanged s s1" by (rule fat_next_block_unchanged[OF Suc.prems(1) nb])
    show ?thesis
    proof (cases "r = 0")
      case True
      with fin have "lookup k name out s1 = Inr (res, s')" by simp
      from Suc.IH[OF unchanged_facts(1)[OF u1] this] u1 show ?thesis by (rule unchanged_trans[rotated])
    next
      case False
      with fin have "s' = s1" by simp
      with u1 show ?thesis by simp
    qed
  qed
qed

lemma get_dir_entry_loop_unchanged:
  "coherent s \<Longrightarrow> get_dir_entry_loop k fuel pr fsn out 0 s = Inr (res, s') \<Longrightarrow> unchanged s s'"
proof (induction k arbitrary: s pr fsn out)
  case 0
  then have "s' = s" by (auto simp: thn_Inr_iff)
  with 0 show ?case by (simp add: unchanged_refl)
next
  case (Suc k)
  from Suc.prems(2) obtain r pr1 where p: "pr_get_next_path_part fuel pr = Inr (r, pr1)"
    and rest: "(if r \<noteq> 0 then Inr ((None, fsn, out), s)
       else
         (let (rb, s1) = fat_read_block fsn s
          in thn (lookup fuel (pr_name pr1) out s1) (\<lambda>((found, dir_ent, sec, off), s2).
               if found \<noteq> 0 then
                 thn (pr_is_current_path_part_a_file pr1) (\<lambda>isf.
                   if isf \<noteq> 0 \<and> (0 :: u8) \<noteq> 0 then
                     (let dir_ent1 = (dir_entry_of_bytes (replicate 32 0))
                                       \<lparr>DIR_Name := bytes_of_name (pr_name pr1), DIR_Attr := 0\<rparr>
                      in thn (add_directory_entry_to_current fuel dir_ent1 (sec, off) s2)
                           (\<lambda>((ret, sec1, off1), s3).
                              Inr ((Some ret, fsn, dir_ent1, sec1, off1), s3)))
                   else Inr ((Some 0, fsn, dir_ent, sec, off), s2))
               else get_dir_entry_loop k fuel pr1
                      (CLUSTER_TO_SECTOR s2 (ucast (DIR_FstClusLO dir_ent) +
                                             push_bit 16 (ucast (DIR_FstClusHI dir_ent))))
                      (dir_ent, sec, off) 0 s2))) = Inr (res, s')"
    by (auto simp: thn_Inr_iff)
  show ?case
  proof (cases "r = 0")
    case False
    with rest have "s' = s" by simp
    with Suc.prems(1) show ?thesis by (simp add: unchanged_refl)
  next
    case True
    obtain rb s1 where rb: "fat_read_block fsn s = (rb, s1)" by (cases "fat_read_block fsn s")
    have u1: "unchanged s s1" by (rule fat_read_block_unchanged[OF Suc.prems(1) rb])
    from rest True rb have "\<exists>found dir_ent sec off s2.
        lookup fuel (pr_name pr1) out s1 = Inr ((found, dir_ent, sec, off), s2) \<and>
        (found \<noteq> 0 \<longrightarrow> s' = s2) \<and>
        (found = 0 \<longrightarrow> get_dir_entry_loop k fuel pr1
                      (CLUSTER_TO_SECTOR s2 (ucast (DIR_FstClusLO dir_ent) +
                                             push_bit 16 (ucast (DIR_FstClusHI dir_ent))))
                      (dir_ent, sec, off) 0 s2 = Inr (res, s'))"
      by (auto simp: thn_Inr_iff Let_def split: if_splits)
    then obtain found dir_ent sec off s2 where
      lk: "lookup fuel (pr_name pr1) out s1 = Inr ((found, dir_ent, sec, off), s2)"
      and fin1: "found \<noteq> 0 \<longrightarrow> s' = s2"
      and fin0: "found = 0 \<longrightarrow> get_dir_entry_loop k fuel pr1
                      (CLUSTER_TO_SECTOR s2 (ucast (DIR_FstClusLO dir_ent) +
                                             push_bit 16 (ucast (DIR_FstClusHI dir_ent))))
                      (dir_ent, sec, off) 0 s2 = Inr (res, s')"
      by blast
    have u2: "unchanged s1 s2" by (rule lookup_unchanged[OF unchanged_facts(1)[OF u1] lk])
    have u02: "unchanged s s2" by (rule unchanged_trans[OF u1 u2])
    show ?thesis
    proof (cases "found = 0")
      case True
      with fin0 have "get_dir_entry_loop k fuel pr1
                      (CLUSTER_TO_SECTOR s2 (ucast (DIR_FstClusLO dir_ent) +
                                             push_bit 16 (ucast (DIR_FstClusHI dir_ent))))
                      (dir_ent, sec, off) 0 s2 = Inr (res, s')" by simp
      from Suc.IH[OF unchanged_facts(1)[OF u02] this] u02 show ?thesis
        by (rule unchanged_trans[rotated])
    next
      case False
      with fin1 have "s' = s2" by simp
      with u02 show ?thesis by simp
    qed
  qed
qed

lemma get_dir_entry_unchanged:
  assumes "coherent s" "get_dir_entry fuel path out 0 s = Inr (res, s')"
  shows "unchanged s s'"
proof -
  from assms(2) obtain res1 s1 where
    l: "get_dir_entry_loop 255 fuel (pr_reset\<lparr>pr_path := Some path\<rparr>)
          (if fs_type (fs_info (mounted s)) = FAT16
             then ucast (BPB_RsvdSecCnt (fs_info (mounted s))) +
                  (ucast (BPB_NumFATs (fs_info (mounted s))) * BPB_FATSz (fs_info (mounted s)))
             else if fs_type (fs_info (mounted s)) = FAT32
             then CLUSTER_TO_SECTOR s (BPB_RootClus (fs_info (mounted s)))
             else 0) out 0 s = Inr (res1, s1)"
    and "s' = s1"
    by (auto simp: get_dir_entry_def Let_def thn_Inr_iff split: option.splits if_splits)
  with get_dir_entry_loop_unchanged[OF assms(1) l] show ?thesis by simp
qed

lemma length_buf_write: "off + length bytes \<le> length buf \<Longrightarrow> length (buf_write buf off bytes) = length buf"
  by (simp add: buf_write_def)

lemma remove_dir_entry_frame:
  assumes "coherent s" "remove_dir_entry sec off s = Inr s'"
  shows "coherent s'" "mounted s' = mounted s" "\<forall>a. a \<noteq> sec \<longrightarrow> view s' a = view s a"
proof -
  obtain r s1 where rb: "fat_read_block sec s = (r, s1)" by (cases "fat_read_block sec s")
  note p = fat_read_block_props[OF assms(1) rb]
  define nb where "nb = (buf_write (sector_buffer s1) (unat off) (replicate 32 0))[unat off := 0xE5]"
  have eq: "remove_dir_entry sec off s =
      (if unat off + 32 > 512 then Inl BufferOverrun
       else Inr (s1\<lparr>sector_buffer := nb, sector_buffer_dirty := 1\<rparr>))"
    unfolding remove_dir_entry_def rb nb_def using p(1) by (simp add: Let_def)
  have le: "unat off + 32 \<le> 512"
  proof (rule ccontr)
    assume "\<not> unat off + 32 \<le> 512"
    then have "remove_dir_entry sec off s = Inl BufferOverrun" unfolding eq by simp
    with assms(2) show False by simp
  qed
  then have s': "s' = s1\<lparr>sector_buffer := nb, sector_buffer_dirty := 1\<rparr>"
    using assms(2) unfolding eq by simp
  have len: "length (sector_buffer s1) = 512" using p(2) by (simp add: coherent_def)
  have lnb: "length nb = 512"
    unfolding nb_def using le len by (simp add: length_buf_write)
  show "coherent s'"
    using p(2) lnb by (simp add: s' coherent_def mounted_device_def)
  show "mounted s' = mounted s" using p(4) by (simp add: s')
  show "\<forall>a. a \<noteq> sec \<longrightarrow> view s' a = view s a"
  proof (intro allI impI)
    fix a assume "a \<noteq> sec"
    then have "view s' a = blocks (mounted_device s1) a"
      using p(6) by (simp add: s' view_def mounted_device_def)
    also have "\<dots> = view s1 a" using \<open>a \<noteq> sec\<close> p(6) by (simp add: view_def)
    finally show "view s' a = view s a" by (simp add: p(3))
  qed
qed

lemma fat_get_sector_frame:
  assumes m: "mounted s' = mounted s" and v: "view s' (fat_sector s x) = view s (fat_sector s x)"
  shows "fat_get s' x = fat_get s x"
  using v by (simp add: fat_get_def mounted_eq_facts[OF m] m Let_def)

text \<open>
  Where the chain is freed and the directory entry left alone. On a coherent FAT16 or
  FAT32 volume (512-byte sectors, a device that does not fail) let \<open>get_dir_entry\<close>
  find the entry \<open>de\<close> of the file at offset \<open>off\<close> of sector \<open>sec\<close>, let the chain of
  the file be \<open>cs\<close>, ending in \<open>e\<close>, and let the sector of the directory entry be
  none of the sectors the walk writes to, the one of the entry indexed by \<open>e\<close>
  included. When \<open>cfs_remove\<close> returns 0, every FAT entry of the chain is 0 in the view
  of the volume and \<open>read_fat_entry\<close> returns 0 for it; and \<open>reset_cluster_chain\<close>
  leaves the 32 bytes of the directory entry as they were.
\<close>

lemma cfs_remove_frees_chain:
  assumes co: "coherent s" and vol: "fat_volume s"
    and gd: "get_dir_entry fuel name locals 0 s = Inr ((r, de, sec, off), s1)"
    and ch: "chain (fat_get s) (first_cluster_of de) cs e" "distinct cs"
      "\<forall>x\<in>set cs. valid_cluster s x" "chain_end s e" "length cs < fuel"
    and dsec: "sec \<notin> fat_sector s ` (set cs \<union> {e})"
    and rm: "cfs_remove fuel name locals s = Inr (0, s')"
  shows "(\<forall>x\<in>set cs. fat_get s' x = 0 \<and> (\<exists>s''. read_fat_entry x s' = Inr (0, s''))) \<and>
         (\<exists>s2. reset_cluster_chain fuel de s1 = Inr s2 \<and>
               dir_entry_on_volume s2 sec off = dir_entry_on_volume s sec off)"
proof -
  have u1: "unchanged s s1" by (rule get_dir_entry_unchanged[OF co gd])
  note uf1 = unchanged_facts[OF u1]
  have "\<exists>sa sb s2. read_fat_entry (first_cluster_of de) s1 = Inr (fat_get s1 (first_cluster_of de), sa) \<and>
           reset_loop fuel (first_cluster_of de) (fat_get s1 (first_cluster_of de)) sa = Inr (e, sb) \<and>
           write_fat_entry e 0 sb = Inr s2 \<and>
           reset_cluster_chain fuel de s1 = Inr s2 \<and> coherent s2 \<and> mounted s2 = mounted s1 \<and>
           sector_buffer_addr s2 = fat_sector s1 e \<and> sector_buffer_dirty s2 = 1 \<and>
           fat_get s2 e = 0 \<and> (\<forall>x\<in>set cs. fat_get s2 x = 0) \<and>
           (\<forall>a. a \<notin> fat_sector s1 ` (set cs \<union> {e}) \<longrightarrow> view s2 a = view s1 a)"
    using vol ch by (intro reset_cluster_chain_walk) (simp_all add: uf1)
  then obtain s2 where rc: "reset_cluster_chain fuel de s1 = Inr s2" and co2: "coherent s2"
    and m2: "mounted s2 = mounted s1" and z2: "\<forall>x\<in>set cs. fat_get s2 x = 0"
    and f2: "\<forall>a. a \<notin> fat_sector s1 ` (set cs \<union> {e}) \<longrightarrow> view s2 a = view s1 a"
    by blast
  from rm gd rc obtain s3 where rd: "remove_dir_entry sec off s2 = Inr s3" and s': "s' = fat_flush s3"
    by (auto simp: cfs_remove_def thn_Inr_iff split: if_splits)
  note fr3 = remove_dir_entry_frame[OF co2 rd]
  have u3: "unchanged s3 s'" unfolding s' by (rule fat_flush_unchanged[OF fr3(1)])
  note uf3 = unchanged_facts[OF u3]
  have ms: "mounted s3 = mounted s" "mounted s2 = mounted s" by (simp_all add: fr3(2) m2 uf1)
  have vol': "fat_volume s'" using vol mounted_eq_facts(1)[OF ms(1)] by (simp add: uf3)
  have zero: "fat_get s' x = 0" if x: "x \<in> set cs" for x
  proof -
    from x dsec have "fat_sector s x \<noteq> sec" by auto
    then have "view s3 (fat_sector s2 x) = view s2 (fat_sector s2 x)"
      using fr3(3) by (simp add: mounted_eq_facts[OF ms(2)])
    from fat_get_sector_frame[OF fr3(2) this] z2 x show ?thesis by (simp add: uf3)
  qed
  have rd0: "\<exists>s''. read_fat_entry x s' = Inr (0, s'')" if x: "x \<in> set cs" for x
    using read_fat_entry_value[OF uf3(1) vol', of x] zero[OF x] by auto
  have "view s2 sec = view s sec" using f2 dsec by (simp add: uf1)
  then have "dir_entry_on_volume s2 sec off = dir_entry_on_volume s sec off"
    by (simp add: dir_entry_on_volume_def)
  with rc zero rd0 show ?thesis by blast
qed

lemma map_sum_fst_Inr: "map_sum id fst m = Inr a \<Longrightarrow> \<exists>b. m = Inr (a, b)"
  by (cases m) auto

lemma remove_foo:
  "map_sum id fst (get_dir_entry 10 ''foo.txt'' (bar_entry, 0, 0) 0 volume_state) = Inr (1, foo_entry, 2080, 0)"
  "map_sum id fst (cfs_remove 10 ''foo.txt'' (bar_entry, 0, 0) volume_state) = Inr 0"
  "fat_sector volume_state 5 = 32" "fat_sector volume_state 6 = 32"
  by code_simp+

lemma cfs_remove_frees_chain_example:
  "\<exists>s'. cfs_remove 10 ''foo.txt'' (bar_entry, 0, 0) volume_state = Inr (0, s') \<and>
        fat_get volume_state 5 = 6 \<and> fat_get volume_state 6 = 0x0FFFFFFF \<and>
        fat_get s' 5 = 0 \<and> fat_get s' 6 = 0"
proof -
  obtain s1 where gd: "get_dir_entry 10 ''foo.txt'' (bar_entry, 0, 0) 0 volume_state =
      Inr ((1, foo_entry, 2080, 0), s1)"
    using map_sum_fst_Inr[OF remove_foo(1)] by blast
  obtain s' where rm: "cfs_remove 10 ''foo.txt'' (bar_entry, 0, 0) volume_state = Inr (0, s')"
    using map_sum_fst_Inr[OF remove_foo(2)] by blast
  have ch: "chain (fat_get volume_state) (first_cluster_of foo_entry) [5, 6] 0x0FFFFFFF"
    by (simp add: foo_chain)
  have v: "\<forall>x\<in>set [5, 6]. valid_cluster volume_state x" by (simp add: foo_chain)
  have d: "2080 \<notin> fat_sector volume_state ` (set [5, 6] \<union> {0x0FFFFFFF})"
    by (simp add: foo_chain remove_foo)
  have "\<forall>x\<in>set [5, 6 :: u32]. fat_get s' x = 0 \<and> (\<exists>s''. read_fat_entry x s' = Inr (0, s''))"
    using cfs_remove_frees_chain [OF coherent_volume_state fat_volume_volume_state gd ch _ v
        foo_chain(6) _ d rm]
    by simp
  with rm show ?thesis by (auto simp: foo_chain)
qed

text \<open>
  With a device that fails every write \<open>cfs_remove\<close> returns 0 as well, and the FAT
  entries of the chain keep their values: \<open>fat_flush\<close> drops the failed writes.
\<close>

lemma cfs_remove_failed_writes:
  "case cfs_remove 10 ''foo.txt'' no_entry failing_volume_state of
     Inl e \<Rightarrow> False
   | Inr (r, s') \<Rightarrow>
       r = 0 \<and> fat_get s' 5 = 6 \<and> fat_get s' 6 = 0x0FFFFFFF \<and>
       map_sum id fst (read_fat_entry 5 s') = Inr 6 \<and>
       map_sum id fst (read_fat_entry 6 s') = Inr 0x0FFFFFFF"
  by code_simp

lemma far_foo_bytes:
  "bytes_of_dir_entry (far_foo_entry\<lparr>DIR_FileSize := 0\<rparr>) \<noteq> bytes_of_dir_entry far_foo_entry"
  "drop 28 (bytes_of_dir_entry far_foo_entry) = [0xBC, 0x02, 0, 0]"
  "drop 28 (bytes_of_dir_entry (far_foo_entry\<lparr>DIR_FileSize := 0\<rparr>)) = [0, 0, 0, 0]"
  by code_simp+

lemma remove_far_foo:
  "case get_dir_entry 20 ''dir/foo.txt'' no_entry 0 far_volume_state of
      Inl e \<Rightarrow> False
    | Inr ((r, de, sec, off), s1) \<Rightarrow>
        r = 1 \<and> de = far_foo_entry \<and> sec = 0x20001F \<and> off = 480 \<and>
        is_file de = 1 \<and> first_cluster_of de = 5 \<and>
        fat_get s1 5 = 6 \<and> fat_get s1 6 = 0x0FFFFFFF \<and>
        fat_sector s1 0x0FFFFFFF = 0x20001F \<and> fat_offset s1 0x0FFFFFFF = 508 \<and>
        dir_entry_on_volume s1 sec off = bytes_of_dir_entry far_foo_entry \<and>
        (case reset_cluster_chain 20 de s1 of
           Inl e \<Rightarrow> False
         | Inr s2 \<Rightarrow>
             fat_get s2 5 = 0 \<and> fat_get s2 6 = 0 \<and>
             dir_entry_on_volume s2 sec off =
               bytes_of_dir_entry (far_foo_entry\<lparr>DIR_FileSize := 0\<rparr>) \<and>
             \<not> isl (remove_dir_entry sec off s2))"
  by code_simp

text \<open>
  C6. \<open>cfs_remove\<close> is to leave every FAT entry of the file's chain reading 0, and the
  walk over the chain is not to modify the file's directory entry. After its loop
  \<open>reset_cluster_chain\<close> writes 0 into the FAT entry whose index is the end-of-chain
  mark itself. On a FAT32 volume with 512-byte sectors and 32 reserved sectors the entry
  with index 0x0FFFFFFF is the last four bytes of sector 0x20001F, far behind the FAT: a
  sector of the data area of a volume of 1 GiB or more. On the volume \<open>far_volume_state\<close>
  that sector is the cluster of the directory DIR, and its last entry is the one of
  FOO.TXT. \<open>get_dir_entry\<close> finds the entry at offset 480 of sector 0x20001F, the chain
  of the file is 5, 6, and \<open>cfs_remove\<close> returns 0. After \<open>reset_cluster_chain\<close> the
  entries 5 and 6 read 0, and the 32 bytes of the directory entry are no longer those
  of the entry that was found: the four bytes of \<open>DIR_FileSize\<close>, 700 before, are 0.
\<close>

theorem cfs_remove_overwrites_dir_entry:
  "\<exists>s1 s2 s'.
     get_dir_entry 20 ''dir/foo.txt'' no_entry 0 far_volume_state =
       Inr ((1, far_foo_entry, 0x20001F, 480), s1) \<and>
     is_file far_foo_entry = 1 \<and> first_cluster_of far_foo_entry = 5 \<and>
     fat_get s1 5 = 6 \<and> fat_get s1 6 = 0x0FFFFFFF \<and>
     fat_sector s1 0x0FFFFFFF = 0x20001F \<and> fat_offset s1 0x0FFFFFFF = 508 \<and>
     dir_entry_on_volume s1 0x20001F 480 = bytes_of_dir_entry far_foo_entry \<and>
     reset_cluster_chain 20 far_foo_entry s1 = Inr s2 \<and>
     fat_get s2 5 = 0 \<and> fat_get s2 6 = 0 \<and>
     dir_entry_on_volume s2 0x20001F 480 = bytes_of_dir_entry (far_foo_entry\<lparr>DIR_FileSize := 0\<rparr>) \<and>
     dir_entry_on_volume s2 0x20001F 480 \<noteq> dir_entry_on_volume s1 0x20001F 480 \<and>
     drop 28 (dir_entry_on_volume s1 0x20001F 480) = [0xBC, 0x02, 0, 0] \<and>
     drop 28 (dir_entry_on_volume s2 0x20001F 480) = [0, 0, 0, 0] \<and>
     DIR_FileSize far_foo_entry = 700 \<and>
     cfs_remove 20 ''dir/foo.txt'' no_entry far_volume_state = Inr (0, s')"
proof -
  obtain r de sec off s1 where g: "get_dir_entry 20 ''dir/foo.txt'' no_entry 0 far_volume_state =
      Inr ((r, de, sec, off), s1)"
    using remove_far_foo
    by (cases "get_dir_entry 20 ''dir/foo.txt'' no_entry 0 far_volume_state") auto
  with remove_far_foo have f1: "r = 1" "de = far_foo_entry" "sec = 0x20001F" "off = 480"
    "is_file de = 1" "first_cluster_of de = 5" "fat_get s1 5 = 6" "fat_get s1 6 = 0x0FFFFFFF"
    "fat_sector s1 0x0FFFFFFF = 0x20001F" "fat_offset s1 0x0FFFFFFF = 508"
    "dir_entry_on_volume s1 sec off = bytes_of_dir_entry far_foo_entry"
    and c: "case reset_cluster_chain 20 de s1 of
           Inl e \<Rightarrow> False
         | Inr s2 \<Rightarrow>
             fat_get s2 5 = 0 \<and> fat_get s2 6 = 0 \<and>
             dir_entry_on_volume s2 sec off =
               bytes_of_dir_entry (far_foo_entry\<lparr>DIR_FileSize := 0\<rparr>) \<and>
             \<not> isl (remove_dir_entry sec off s2)"
    by auto
  from c obtain s2 where rc: "reset_cluster_chain 20 de s1 = Inr s2"
    by (cases "reset_cluster_chain 20 de s1") auto
  with c have f2: "fat_get s2 5 = 0" "fat_get s2 6 = 0"
    "dir_entry_on_volume s2 sec off = bytes_of_dir_entry (far_foo_entry\<lparr>DIR_FileSize := 0\<rparr>)"
    "\<not> isl (remove_dir_entry sec off s2)"
    by auto
  from f2(4) obtain s3 where rd: "remove_dir_entry sec off s2 = Inr s3"
    by (cases "remove_dir_entry sec off s2") auto
  have rm: "cfs_remove 20 ''dir/foo.txt'' no_entry far_volume_state = Inr (0, fat_flush s3)"
    using g rc rd f1(1,5) by (simp add: cfs_remove_def)
  have sz: "DIR_FileSize far_foo_entry = 700" by (simp add: far_foo_entry_def)
  from g rc rm f1 f2 sz far_foo_bytes show ?thesis by auto
qed

end
